theory Spec2Isabelle
  imports Main "HOL-Library.Word" "HOL-Library.Signed_Division"
begin

unbundle bit_operations_syntax

section \<open>Machine integers and text\<close>

text \<open>
  C++ \<open>int\<close> and \<open>unsigned int\<close> are 32-bit words, \<open>qint64\<close>, \<open>quint64\<close> and
  \<open>qulonglong\<close> are 64-bit words; signed readings go through \<open>sint\<close>, signed comparisons
  through \<open>\<le>s\<close> and \<open><s\<close>.  A \<open>QString\<close> is a list of characters.
\<close>

type_synonym cint = "32 word"
type_synonym qint64 = "64 word"
type_synonym quint64 = "64 word"

text \<open>Division of two \<open>qint64\<close> values truncates towards zero.\<close>

definition div_qint64 :: "qint64 \<Rightarrow> qint64 \<Rightarrow> qint64" where
  "div_qint64 a b = word_of_int (sint a sdiv sint b)"

text \<open>Division of two \<open>int\<close> values, likewise.\<close>

definition div_cint :: "cint \<Rightarrow> cint \<Rightarrow> cint" where
  "div_cint a b = word_of_int (sint a sdiv sint b)"

subsection \<open>QString and QChar\<close>

text \<open>
  \<open>QChar::isSpace\<close> on the code points below 256: tab, line feed, vertical tab, form feed,
  carriage return, space, next line (0x85) and no-break space (0xA0).
\<close>

definition isSpace :: "char \<Rightarrow> bool" where
  "isSpace c \<longleftrightarrow>
     c \<in> set [CHR 0x09, CHR 0x0A, CHR 0x0B, CHR 0x0C, CHR 0x0D, CHR 0x20, CHR 0x85, CHR 0xA0]"

definition trimmed :: "string \<Rightarrow> string" where
  "trimmed s = rev (dropWhile isSpace (rev (dropWhile isSpace s)))"

definition isDigit :: "char \<Rightarrow> bool" where
  "isDigit c \<longleftrightarrow> (48::nat) \<le> of_char c \<and> of_char c \<le> (57::nat)"

text \<open>ASCII lower-casing, which is what \<open>QString::toLower\<close> does to the code points below 128.\<close>

definition toLower_char :: "char \<Rightarrow> char" where
  "toLower_char c =
     (if (65::nat) \<le> of_char c \<and> of_char c \<le> (90::nat)
      then char_of (of_char c + (32::nat)) else c)"

definition toLower :: "string \<Rightarrow> string" where
  "toLower s = map toLower_char s"

text \<open>
  The value of a digit in a base up to 16 (\<open>0\<close> to \<open>9\<close> are the codes 48 to 57, \<open>a\<close> to
  \<open>f\<close> 97 to 102, \<open>A\<close> to \<open>F\<close> 65 to 70); \<open>None\<close> for any other character.
\<close>

definition digit_value :: "char \<Rightarrow> nat option" where
  "digit_value c =
     (let n = (of_char c :: nat) in
      if 48 \<le> n \<and> n \<le> 57 then Some (n - 48)
      else if 97 \<le> n \<and> n \<le> 102 then Some (n - 87)
      else if 65 \<le> n \<and> n \<le> 70 then Some (n - 55)
      else None)"

fun digits_value :: "nat \<Rightarrow> nat \<Rightarrow> string \<Rightarrow> nat option" where
  "digits_value base acc [] = Some acc"
| "digits_value base acc (c # cs) =
     (case digit_value c of
        None \<Rightarrow> None
      | Some d \<Rightarrow> if d < base then digits_value base (acc * base + d) cs else None)"

definition number_value :: "nat \<Rightarrow> string \<Rightarrow> nat option" where
  "number_value base s = (if s = [] then None else digits_value base 0 s)"

text \<open>
  \<open>QString::toLongLong(&ok, 0)\<close> on a string without surrounding white space: an optional
  sign, then \<open>0x\<close> and hexadecimal digits, or a leading \<open>0\<close> and octal digits, or decimal
  digits; the whole string must be consumed and the value must fit 64 signed bits.
  \<open>None\<close> stands for \<open>ok == false\<close>.
\<close>

definition magnitude_base0 :: "string \<Rightarrow> nat option" where
  "magnitude_base0 body =
     (case body of
        a # b # rest \<Rightarrow>
          if a = CHR ''0'' \<and> (b = CHR ''x'' \<or> b = CHR ''X'') \<and> rest \<noteq> []
          then number_value 16 rest
          else if a = CHR ''0'' then number_value 8 body
          else number_value 10 body
      | _ \<Rightarrow> number_value 10 body)"

definition toLongLong :: "string \<Rightarrow> qint64 option" where
  "toLongLong s =
     (let neg = (s \<noteq> [] \<and> hd s = CHR ''-'');
          body = (if s \<noteq> [] \<and> (hd s = CHR ''-'' \<or> hd s = CHR ''+'') then tl s else s)
      in case magnitude_base0 body of
           None \<Rightarrow> None
         | Some n \<Rightarrow>
             if neg then (if n \<le> 2 ^ 63 then Some (- of_nat n) else None)
             else (if n < 2 ^ 63 then Some (of_nat n) else None))"

text \<open>
  \<open>QString::toInt()\<close> on a string of decimal digits (the capture of \<open>\d+\<close>): the value,
  or 0 when it does not fit an \<open>int\<close>.
\<close>

definition toInt_digits :: "string \<Rightarrow> cint" where
  "toInt_digits ds =
     (case number_value 10 ds of
        None \<Rightarrow> 0
      | Some n \<Rightarrow> if n < 2 ^ 31 then of_nat n else 0)"

text \<open>\<open>QString::split(sep, Qt::SkipEmptyParts)\<close>.\<close>

fun split_on :: "char \<Rightarrow> string \<Rightarrow> string list" where
  "split_on sep [] = [[]]"
| "split_on sep (c # cs) =
     (if c = sep then [] # split_on sep cs
      else (case split_on sep cs of
              [] \<Rightarrow> [[c]]
            | l # ls \<Rightarrow> (c # l) # ls))"

definition split_skip_empty :: "char \<Rightarrow> string \<Rightarrow> string list" where
  "split_skip_empty sep s = filter (\<lambda>l. l \<noteq> []) (split_on sep s)"

section \<open>The file system as the readers see it\<close>

text \<open>
  What Qt and the kernel answer is a parameter of the model:
  \<^item> \<open>file_text p\<close>: the text of the file \<open>p\<close> as a device opened with
    \<open>QIODevice::ReadOnly | QIODevice::Text\<close> delivers it, \<open>None\<close> when it cannot be opened;
  \<^item> \<open>path_exists p\<close>: \<open>QFile::exists(p)\<close>;
  \<^item> \<open>dir_exists p\<close>: \<open>QDir(p).exists()\<close>;
  \<^item> \<open>list_dirs p\<close>: \<open>QDir(p).entryList(QDir::Dirs | QDir::NoDotAndDotDot)\<close>;
  \<^item> \<open>list_dirs_named p pat\<close>: the same with the name filter \<open>pat\<close>;
  \<^item> \<open>list_files_named p pat\<close>: \<open>QDir(p).entryList({pat}, QDir::Files)\<close>;
  \<^item> \<open>lspci_output id\<close>: the standard output of \<open>lspci -s id\<close> when the process
    finishes within three seconds, \<open>None\<close> otherwise.
  A \<open>QDir\<close> is identified with its path; the default-constructed \<open>QDir()\<close> is the
  current directory \<open>''.''\<close>, and \<open>absoluteFilePath\<close> appends an entry name to the path.
\<close>

record sysfs =
  file_text :: "string \<Rightarrow> string option"
  path_exists :: "string \<Rightarrow> bool"
  dir_exists :: "string \<Rightarrow> bool"
  list_dirs :: "string \<Rightarrow> string list"
  list_dirs_named :: "string \<Rightarrow> string \<Rightarrow> string list"
  list_files_named :: "string \<Rightarrow> string \<Rightarrow> string list"
  lspci_output :: "string \<Rightarrow> string option"

definition absoluteFilePath :: "string \<Rightarrow> string \<Rightarrow> string" where
  "absoluteFilePath dir entry = dir @ ''/'' @ entry"

definition default_QDir :: string where
  "default_QDir = ''.''"

section \<open>Devices and statistics (gpu.h)\<close>

datatype GpuVendor = Nvidia | AMD | Intel | Unknown

record GpuDevice =
  cardPath :: string
  devicePath :: string
  pciBusId :: string
  name :: string
  vendor :: GpuVendor

record GpuStats =
  utilizationPercent :: cint
  memoryUsedBytes :: quint64
  memoryTotalBytes :: quint64
  temperatureC :: cint
  powerUsageWatts :: cint
  maxPowerWatts :: cint
  coreClockkHz :: cint
  memoryClockkHz :: cint
  fanSpeedPercent :: cint
  fanSpeedRPM :: cint
  graphicsUtilPercent :: cint
  videoEncodeUtilPercent :: cint
  videoDecodeUtilPercent :: cint
  computeUtilPercent :: cint
  driverVersion :: string
  vbiosVersion :: string
  pcieGeneration :: cint
  pcieLanes :: cint

text \<open>A default-constructed \<open>GpuStats\<close>: the member initialisers of the struct.\<close>

definition new_GpuStats :: GpuStats where
  "new_GpuStats =
     \<lparr> utilizationPercent = - 1, memoryUsedBytes = 0, memoryTotalBytes = 0,
       temperatureC = - 1, powerUsageWatts = - 1, maxPowerWatts = - 1,
       coreClockkHz = - 1, memoryClockkHz = - 1, fanSpeedPercent = - 1, fanSpeedRPM = - 1,
       graphicsUtilPercent = - 1, videoEncodeUtilPercent = - 1,
       videoDecodeUtilPercent = - 1, computeUtilPercent = - 1,
       driverVersion = [], vbiosVersion = [], pcieGeneration = - 1, pcieLanes = - 1 \<rparr>"

section \<open>The AMD backend (gpu_backend_amd.cpp)\<close>

text \<open>
  \<open>readFirstLine\<close>: \<open>QTextStream::readLine\<close> gives the text before the first line feed,
  a null string on an empty file; the result is trimmed and an empty result is a failure.
  \<open>None\<close> stands for the return value \<open>false\<close>.  The Intel backend has the same two
  helpers, character for character.
\<close>

definition readLine :: "string \<Rightarrow> string option" where
  "readLine content = (if content = [] then None else Some (takeWhile (\<lambda>c. c \<noteq> CHR 0x0A) content))"

definition readFirstLine :: "sysfs \<Rightarrow> string \<Rightarrow> string option" where
  "readFirstLine fs filePath =
     (case file_text fs filePath of
        None \<Rightarrow> None
      | Some content \<Rightarrow>
          (case readLine content of
             None \<Rightarrow> None
           | Some line \<Rightarrow> if trimmed line = [] then None else Some (trimmed line)))"

definition readIntegerFile :: "sysfs \<Rightarrow> string \<Rightarrow> qint64 option" where
  "readIntegerFile fs filePath =
     (case readFirstLine fs filePath of
        None \<Rightarrow> None
      | Some content \<Rightarrow> toLongLong content)"

definition GpuBackendAmd_supports :: "GpuDevice \<Rightarrow> bool" where
  "GpuBackendAmd_supports device \<longleftrightarrow> vendor device = AMD"

text \<open>
  The readers below take the current value of each reference parameter and return the
  flag together with the values the parameters hold afterwards.
\<close>

definition readGpuUtilization :: "sysfs \<Rightarrow> string \<Rightarrow> cint \<Rightarrow> bool \<times> cint" where
  "readGpuUtilization fs path utilization =
     (case readIntegerFile fs (path @ ''/gpu_busy_percent'') of
        Some util \<Rightarrow> (0 \<le>s util, ucast util)
      | None \<Rightarrow> (False, utilization))"

definition readVramInfo ::
  "sysfs \<Rightarrow> string \<Rightarrow> quint64 \<Rightarrow> quint64 \<Rightarrow> bool \<times> quint64 \<times> quint64" where
  "readVramInfo fs path used0 total0 =
     (let (hasUsed, used1) =
            (case readIntegerFile fs (path @ ''/mem_info_vram_used'') of
               Some vramUsed \<Rightarrow> (True, vramUsed) | None \<Rightarrow> (False, used0));
          (hasTotal, total1) =
            (case readIntegerFile fs (path @ ''/mem_info_vram_total'') of
               Some vramTotal \<Rightarrow> (True, vramTotal) | None \<Rightarrow> (False, total0))
      in (hasUsed \<and> hasTotal, used1, total1))"

definition findHwmonDir :: "sysfs \<Rightarrow> string \<Rightarrow> string" where
  "findHwmonDir fs path =
     (let hwmonBaseDir = path @ ''/hwmon'' in
      if \<not> dir_exists fs hwmonBaseDir then default_QDir
      else (case find (\<lambda>entry. dir_exists fs (absoluteFilePath hwmonBaseDir entry))
                   (list_dirs fs hwmonBaseDir) of
              Some entry \<Rightarrow> absoluteFilePath hwmonBaseDir entry
            | None \<Rightarrow> default_QDir))"

definition findHwmonFiles :: "sysfs \<Rightarrow> string \<Rightarrow> string \<Rightarrow> string list" where
  "findHwmonFiles fs hwmonDir pattern =
     (if \<not> dir_exists fs hwmonDir then [] else list_files_named fs hwmonDir pattern)"

text \<open>The loop over the sensor files: the first one that holds an integer decides.\<close>

fun first_integer_file :: "sysfs \<Rightarrow> string \<Rightarrow> string list \<Rightarrow> qint64 option" where
  "first_integer_file fs dir [] = None"
| "first_integer_file fs dir (f # fs') =
     (case readIntegerFile fs (absoluteFilePath dir f) of
        Some v \<Rightarrow> Some v
      | None \<Rightarrow> first_integer_file fs dir fs')"

definition GpuBackendAmd_readTemperature :: "sysfs \<Rightarrow> string \<Rightarrow> cint \<Rightarrow> bool \<times> cint" where
  "GpuBackendAmd_readTemperature fs path temperature0 =
     (let hwmonDir = findHwmonDir fs path in
      if \<not> dir_exists fs hwmonDir then (False, temperature0)
      else (case first_integer_file fs hwmonDir (findHwmonFiles fs hwmonDir ''temp*_input'') of
              Some milliC \<Rightarrow> (True, ucast (div_qint64 milliC 1000))
            | None \<Rightarrow> (False, temperature0)))"

text \<open>
  The pattern \<open>(\d+)\s*[MG]hz\<close>, with \<open>\d\<close> the ASCII digits and \<open>\s\<close> the ASCII white
  space.  \<open>parseCurrentClockFromDpm\<close> compiles it without options, so case-sensitive
  (\<open>re_tail\<close> is \<open>[MG]hz\<close> at the start of the text); \<open>GpuReader::readAmdClockInfo\<close>
  compiles it with \<open>CaseInsensitiveOption\<close> (\<open>re_tail_ci\<close>).  \<open>re_spaces\<close> is \<open>\s*\<close>
  followed by the tail, \<open>re_digits\<close> is the whole pattern anchored at the start (the
  longest run of digits first, giving digits back when the rest does not match) and
  returns the capture; \<open>re_search\<close> is \<open>QRegularExpression::match\<close>, the leftmost match.
\<close>

definition isSpace_re :: "char \<Rightarrow> bool" where
  "isSpace_re c \<longleftrightarrow> c \<in> set [CHR 0x09, CHR 0x0A, CHR 0x0B, CHR 0x0C, CHR 0x0D, CHR 0x20]"

definition re_tail :: "string \<Rightarrow> bool" where
  "re_tail s =
     (case s of
        a # b # c # _ \<Rightarrow> (a = CHR ''M'' \<or> a = CHR ''G'') \<and> b = CHR ''h'' \<and> c = CHR ''z''
      | _ \<Rightarrow> False)"

definition re_tail_ci :: "string \<Rightarrow> bool" where
  "re_tail_ci s =
     (case s of
        a # b # c # _ \<Rightarrow>
          (a = CHR ''M'' \<or> a = CHR ''G'' \<or> a = CHR ''m'' \<or> a = CHR ''g'')
          \<and> (b = CHR ''h'' \<or> b = CHR ''H'') \<and> (c = CHR ''z'' \<or> c = CHR ''Z'')
      | _ \<Rightarrow> False)"

fun re_spaces :: "(string \<Rightarrow> bool) \<Rightarrow> string \<Rightarrow> bool" where
  "re_spaces tail [] = tail []"
| "re_spaces tail (c # cs) = ((isSpace_re c \<and> re_spaces tail cs) \<or> tail (c # cs))"

fun re_digits :: "(string \<Rightarrow> bool) \<Rightarrow> string \<Rightarrow> string option" where
  "re_digits tail [] = None"
| "re_digits tail (c # cs) =
     (if isDigit c
      then (case re_digits tail cs of
              Some ds \<Rightarrow> Some (c # ds)
            | None \<Rightarrow> if re_spaces tail cs then Some [c] else None)
      else None)"

fun re_search :: "(string \<Rightarrow> bool) \<Rightarrow> string \<Rightarrow> string option" where
  "re_search tail [] = None"
| "re_search tail (c # cs) =
     (case re_digits tail (c # cs) of
        Some ds \<Rightarrow> Some ds
      | None \<Rightarrow> re_search tail cs)"

text \<open>
  The loop over the lines of a DPM table: the first line that holds a \<open>*\<close> and matches
  the pattern gives the clock; \<open>None\<close> when the loop ends without one.
\<close>

fun current_clock_of_lines :: "(string \<Rightarrow> bool) \<Rightarrow> string list \<Rightarrow> cint option" where
  "current_clock_of_lines tail [] = None"
| "current_clock_of_lines tail (line # lines) =
     (if CHR ''*'' \<in> set line
      then (case re_search tail line of
              Some ds \<Rightarrow> Some (toInt_digits ds)
            | None \<Rightarrow> current_clock_of_lines tail lines)
      else current_clock_of_lines tail lines)"

definition parseCurrentClockFromDpm :: "string \<Rightarrow> cint" where
  "parseCurrentClockFromDpm dpmContent =
     (case current_clock_of_lines re_tail (split_skip_empty (CHR 0x0A) dpmContent) of
        Some clock \<Rightarrow> clock
      | None \<Rightarrow> - 1)"

definition readClockInfo :: "sysfs \<Rightarrow> string \<Rightarrow> cint \<Rightarrow> cint \<Rightarrow> bool \<times> cint \<times> cint" where
  "readClockInfo fs path memoryClock graphicsClock =
     (let (hasMemClock, memoryClock') =
            (case readFirstLine fs (path @ ''/pp_dpm_mclk'') of
               Some mclkContent \<Rightarrow>
                 (0 <s parseCurrentClockFromDpm mclkContent, parseCurrentClockFromDpm mclkContent)
             | None \<Rightarrow> (False, memoryClock));
          (hasGfxClock, graphicsClock') =
            (case readFirstLine fs (path @ ''/pp_dpm_sclk'') of
               Some sclkContent \<Rightarrow>
                 (0 <s parseCurrentClockFromDpm sclkContent, parseCurrentClockFromDpm sclkContent)
             | None \<Rightarrow> (False, graphicsClock))
      in (hasMemClock \<or> hasGfxClock, memoryClock', graphicsClock'))"

text \<open>
  \<open>GpuBackendAmd::readStats\<close>.  A clock in MHz is widened to \<open>qint64\<close>, multiplied by
  1000 and stored into an \<open>int\<close> member.
\<close>

definition mhz_to_khz :: "cint \<Rightarrow> cint" where
  "mhz_to_khz clock = ucast ((scast clock :: qint64) * 1000)"

definition GpuBackendAmd_readStats :: "sysfs \<Rightarrow> GpuDevice \<Rightarrow> GpuStats \<Rightarrow> bool \<times> GpuStats" where
  "GpuBackendAmd_readStats fs device out =
     (let (okUtil, utilization) = readGpuUtilization fs (devicePath device) (- 1);
          out1 = (if okUtil then out\<lparr>utilizationPercent := utilization\<rparr> else out);
          (okVram, vramUsed, vramTotal) = readVramInfo fs (devicePath device) 0 0;
          out2 = (if okVram then out1\<lparr>memoryUsedBytes := vramUsed, memoryTotalBytes := vramTotal\<rparr>
                  else out1);
          (okTemp, temperature) = GpuBackendAmd_readTemperature fs (devicePath device) (- 1);
          out3 = (if okTemp then out2\<lparr>temperatureC := temperature\<rparr> else out2);
          (okClock, memoryClock, graphicsClock) = readClockInfo fs (devicePath device) (- 1) (- 1);
          out4 = (if okClock \<and> 0 <s memoryClock
                  then out3\<lparr>memoryClockkHz := mhz_to_khz memoryClock\<rparr> else out3);
          out5 = (if okClock \<and> 0 <s graphicsClock
                  then out4\<lparr>coreClockkHz := mhz_to_khz graphicsClock\<rparr> else out4)
      in (okUtil \<or> okVram \<or> okTemp
            \<or> (okClock \<and> 0 <s memoryClock) \<or> (okClock \<and> 0 <s graphicsClock),
          out5))"

section \<open>The Intel backend (gpu_backend_intel.cpp)\<close>

record EngineStats =
  engineName :: string
  className :: string
  engineUtilizationPercent :: cint
  busyNs :: quint64
  instances :: cint

text \<open>
  The members \<open>name\<close> and \<open>utilizationPercent\<close> of \<open>IntelGpuStats::EngineStats\<close> are
  \<open>engineName\<close> and \<open>engineUtilizationPercent\<close> here, the plain names being taken by
  \<open>GpuDevice\<close> and \<open>GpuStats\<close>.
\<close>

definition startsWith :: "string \<Rightarrow> string \<Rightarrow> bool" where
  "startsWith s p \<longleftrightarrow> take (length p) s = p"

definition GpuBackendIntel_supports :: "GpuDevice \<Rightarrow> bool" where
  "GpuBackendIntel_supports device \<longleftrightarrow> vendor device = Intel"

definition parseEngineClass :: "string \<Rightarrow> string" where
  "parseEngineClass n =
     (if startsWith n ''rcs'' then ''Render''
      else if startsWith n ''bcs'' then ''Copy''
      else if startsWith n ''vcs'' then ''Video''
      else if startsWith n ''vecs'' then ''VideoEnhance''
      else if startsWith n ''ccs'' then ''Compute''
      else ''Unknown'')"

definition new_EngineStats :: "string \<Rightarrow> EngineStats" where
  "new_EngineStats n =
     \<lparr> engineName = n, className = parseEngineClass n, engineUtilizationPercent = - 1,
       busyNs = 0, instances = 1 \<rparr>"

definition readSingleEngineStats :: "sysfs \<Rightarrow> string \<Rightarrow> EngineStats \<Rightarrow> bool \<times> EngineStats" where
  "readSingleEngineStats fs enginePath engine =
     (let (has1, e1) =
            (case readIntegerFile fs (enginePath @ ''/busy_percent'') of
               Some busyPercent \<Rightarrow>
                 if 0 \<le>s busyPercent
                 then (True, engine\<lparr>engineUtilizationPercent := ucast busyPercent\<rparr>)
                 else (False, engine)
             | None \<Rightarrow> (False, engine));
          (has2, e2) =
            (case readIntegerFile fs (enginePath @ ''/busy_ns'') of
               Some ns \<Rightarrow> (True, e1\<lparr>busyNs := ns\<rparr>)
             | None \<Rightarrow> (has1, e1));
          e3 = (case readIntegerFile fs (enginePath @ ''/instances'') of
                  Some n \<Rightarrow> e2\<lparr>instances := ucast n\<rparr>
                | None \<Rightarrow> e2);
          e4 = (case readFirstLine fs (enginePath @ ''/class'') of
                  Some cls \<Rightarrow> e3\<lparr>className := trimmed cls\<rparr>
                | None \<Rightarrow> e3)
      in (has2, e4))"

fun discover_engines :: "sysfs \<Rightarrow> string \<Rightarrow> string list \<Rightarrow> EngineStats list \<Rightarrow> EngineStats list" where
  "discover_engines fs engineDir [] engines = engines"
| "discover_engines fs engineDir (n # ns) engines =
     (case readSingleEngineStats fs (absoluteFilePath engineDir n) (new_EngineStats n) of
        (True, engine) \<Rightarrow> discover_engines fs engineDir ns (engines @ [engine])
      | (False, _) \<Rightarrow> discover_engines fs engineDir ns engines)"

definition readEngineDirectory ::
  "sysfs \<Rightarrow> string \<Rightarrow> EngineStats list \<Rightarrow> bool \<times> EngineStats list" where
  "readEngineDirectory fs path engines =
     (let engineDir = path @ ''/engine'' in
      if \<not> dir_exists fs engineDir then (False, engines)
      else (let engines' = discover_engines fs engineDir (list_dirs fs engineDir) engines
            in (engines' \<noteq> [], engines')))"

text \<open>
  \<open>m_engineCache\<close> is a \<open>QMap\<close> from device path to the engines found there.
  \<open>readEngineUtilization\<close> returns the flag, the caller's vector and the cache.
\<close>

type_synonym engine_cache = "string \<rightharpoonup> EngineStats list"

definition readEngineUtilization ::
  "sysfs \<Rightarrow> engine_cache \<Rightarrow> GpuDevice \<Rightarrow> EngineStats list
     \<Rightarrow> bool \<times> EngineStats list \<times> engine_cache" where
  "readEngineUtilization fs cache device engines =
     (case cache (devicePath device) of
        Some cached \<Rightarrow>
          (let engines' =
                 map (\<lambda>engine. snd (readSingleEngineStats fs
                        (devicePath device @ ''/engine/'' @ engineName engine) engine)) cached
           in (engines' \<noteq> [], engines', cache))
      | None \<Rightarrow>
          (case readEngineDirectory fs (devicePath device) [] of
             (True, discoveredEngines) \<Rightarrow>
               (True, discoveredEngines, cache(devicePath device \<mapsto> discoveredEngines))
           | (False, _) \<Rightarrow> (False, engines, cache)))"

text \<open>
  The loop of \<open>calculateAverageUtilization\<close> over two \<open>int\<close> accumulators; the additions
  are those of 32-bit words.
\<close>

fun sum_valid_engines :: "EngineStats list \<Rightarrow> cint \<Rightarrow> cint \<Rightarrow> cint \<times> cint" where
  "sum_valid_engines [] totalUtilization validEngines = (totalUtilization, validEngines)"
| "sum_valid_engines (engine # engines) totalUtilization validEngines =
     (if 0 \<le>s engineUtilizationPercent engine
      then sum_valid_engines engines
             (totalUtilization + engineUtilizationPercent engine) (validEngines + 1)
      else sum_valid_engines engines totalUtilization validEngines)"

definition calculateAverageUtilization :: "EngineStats list \<Rightarrow> cint" where
  "calculateAverageUtilization engines =
     (if engines = [] then - 1
      else (let (totalUtilization, validEngines) = sum_valid_engines engines 0 0 in
            if validEngines = 0 then - 1
            else div_cint totalUtilization validEngines))"

fun first_existing_integer_file :: "sysfs \<Rightarrow> string \<Rightarrow> string list \<Rightarrow> qint64 option" where
  "first_existing_integer_file fs dir [] = None"
| "first_existing_integer_file fs dir (f # fs') =
     (if path_exists fs (absoluteFilePath dir f)
      then (case readIntegerFile fs (absoluteFilePath dir f) of
              Some v \<Rightarrow> Some v
            | None \<Rightarrow> first_existing_integer_file fs dir fs')
      else first_existing_integer_file fs dir fs')"

definition GpuBackendIntel_readTemperature :: "sysfs \<Rightarrow> string \<Rightarrow> cint \<Rightarrow> bool \<times> cint" where
  "GpuBackendIntel_readTemperature fs path temperature0 =
     (let hwmonDir = findHwmonDir fs path in
      if \<not> dir_exists fs hwmonDir then (False, temperature0)
      else (case first_existing_integer_file fs hwmonDir
                   [''temp1_input'', ''temp2_input'', ''temp_input''] of
              Some milliC \<Rightarrow> (True, ucast (div_qint64 milliC 1000))
            | None \<Rightarrow> (False, temperature0)))"

definition readGpuFrequency ::
  "sysfs \<Rightarrow> string \<Rightarrow> cint \<Rightarrow> cint \<Rightarrow> cint \<Rightarrow> bool \<times> cint \<times> cint \<times> cint" where
  "readGpuFrequency fs path current0 min0 max0 =
     (let (hasCurrent, current1) =
            (case readIntegerFile fs (path @ ''/gt_cur_freq_mhz'') of
               Some f \<Rightarrow> (True, ucast f) | None \<Rightarrow> (False, current0));
          (hasMin, min1) =
            (case readIntegerFile fs (path @ ''/gt_min_freq_mhz'') of
               Some f \<Rightarrow> (True, ucast f) | None \<Rightarrow> (False, min0));
          (hasMax, max1) =
            (case readIntegerFile fs (path @ ''/gt_max_freq_mhz'') of
               Some f \<Rightarrow> (True, ucast f) | None \<Rightarrow> (False, max0))
      in (hasCurrent \<or> hasMin \<or> hasMax, current1, min1, max1))"

definition GpuBackendIntel_readStats ::
  "sysfs \<Rightarrow> engine_cache \<Rightarrow> GpuDevice \<Rightarrow> GpuStats \<Rightarrow> bool \<times> GpuStats \<times> engine_cache" where
  "GpuBackendIntel_readStats fs cache device out =
     (let (okEngines, engines, cache') = readEngineUtilization fs cache device [];
          avgUtilization = calculateAverageUtilization engines;
          hasUtil = (okEngines \<and> 0 \<le>s avgUtilization);
          out1 = (if hasUtil then out\<lparr>utilizationPercent := avgUtilization\<rparr> else out);
          (okTemp, temperature) = GpuBackendIntel_readTemperature fs (devicePath device) (- 1);
          out2 = (if okTemp then out1\<lparr>temperatureC := temperature\<rparr> else out1);
          (okFreq, currentFreq, minFreq, maxFreq) =
            readGpuFrequency fs (devicePath device) (- 1) (- 1) (- 1);
          hasFreq = (okFreq \<and> 0 <s currentFreq);
          out3 = (if hasFreq then out2\<lparr>coreClockkHz := mhz_to_khz currentFreq\<rparr> else out2);
          out4 = (if okFreq then out3\<lparr>memoryClockkHz := - 1\<rparr> else out3);
          out5 = out4\<lparr>memoryUsedBytes := 0, memoryTotalBytes := 0\<rparr>
      in (hasUtil \<or> okTemp \<or> hasFreq, out5, cache'))"

section \<open>The NVML library and the NVIDIA backend (gpu_backend_nvidia.cpp)\<close>

text \<open>
  What a loaded NVML library offers is a parameter of the model: a symbol that does not
  resolve is \<open>None\<close>, one that resolves is given with the answers of the function (the
  return code first, then the values written through the pointer arguments).  A device
  handle is a number.  Of the optional symbols only \<open>nvmlDeviceGetClockInfo\<close> is called
  by the functions modelled here.
\<close>

record nvml_library =
  nvmlInit_v2 :: "cint option"
  nvmlShutdown :: "cint option"
  nvmlDeviceGetHandleByPciBusId_v2 :: "(string \<Rightarrow> cint \<times> nat) option"
  nvmlDeviceGetUtilizationRates :: "(nat \<Rightarrow> cint \<times> cint \<times> cint) option"
  nvmlDeviceGetMemoryInfo :: "(nat \<Rightarrow> cint \<times> quint64 \<times> quint64 \<times> quint64) option"
  nvmlDeviceGetTemperature :: "(nat \<Rightarrow> cint \<Rightarrow> cint \<times> cint) option"
  nvmlDeviceGetClockInfo :: "(nat \<Rightarrow> cint \<Rightarrow> cint \<times> cint) option"

definition NVML_SUCCESS :: cint where "NVML_SUCCESS = 0"
definition NVML_TEMPERATURE_GPU :: cint where "NVML_TEMPERATURE_GPU = 0"
definition NVML_CLOCK_GRAPHICS :: cint where "NVML_CLOCK_GRAPHICS = 0"
definition NVML_CLOCK_MEM :: cint where "NVML_CLOCK_MEM = 1"

text \<open>
  The host: the file system, \<open>qEnvironmentVariableIsSet\<close>, and \<open>QLibrary::load\<close> for a
  file name (\<open>None\<close> when loading fails).
\<close>

record host =
  sys :: sysfs
  env_is_set :: "string \<Rightarrow> bool"
  load_library :: "string \<Rightarrow> nvml_library option"

text \<open>
  \<open>NvidiaBackendPrivate\<close>: the flag, whether the library is loaded, the function pointers
  (\<open>None\<close> for \<open>nullptr\<close>), and a log of what the backend has asked of the host so far.
\<close>

datatype nvml_action =
  ProbeFile string | LoadLibrary string | ResolveSymbols | CallInit | UnloadLibrary

record NvidiaBackendPrivate =
  initialized :: bool
  nvmlLib_isLoaded :: bool
  pointers :: nvml_library
  actions :: "nvml_action list"

definition null_pointers :: nvml_library where
  "null_pointers =
     \<lparr> nvmlInit_v2 = None, nvmlShutdown = None, nvmlDeviceGetHandleByPciBusId_v2 = None,
       nvmlDeviceGetUtilizationRates = None, nvmlDeviceGetMemoryInfo = None,
       nvmlDeviceGetTemperature = None, nvmlDeviceGetClockInfo = None \<rparr>"

definition new_NvidiaBackendPrivate :: NvidiaBackendPrivate where
  "new_NvidiaBackendPrivate =
     \<lparr> initialized = False, nvmlLib_isLoaded = False, pointers = null_pointers, actions = [] \<rparr>"

definition getNvmlLibraryCandidates :: "string list" where
  "getNvmlLibraryCandidates =
     [''/usr/lib/x86_64-linux-gnu/libnvidia-ml.so.1'',
      ''/usr/lib64/libnvidia-ml.so.1'',
      ''/usr/lib/libnvidia-ml.so.1'',
      ''/usr/local/cuda/lib64/libnvidia-ml.so.1'',
      ''libnvidia-ml.so.1'',
      ''libnvidia-ml.so'']"

text \<open>The probing loop: the candidates looked at, and the first one that exists.\<close>

fun probe_candidates :: "sysfs \<Rightarrow> string list \<Rightarrow> nvml_action list \<times> string" where
  "probe_candidates fs [] = ([], [])"
| "probe_candidates fs (c # cs) =
     (if path_exists fs c then ([ProbeFile c], c)
      else (case probe_candidates fs cs of (log, found) \<Rightarrow> (ProbeFile c # log, found)))"

definition resolveFunctions :: "nvml_library \<Rightarrow> nvml_library \<Rightarrow> bool \<times> nvml_library" where
  "resolveFunctions lib p =
     (let p1 = p\<lparr> nvmlInit_v2 := nvmlInit_v2 lib,
                  nvmlShutdown := nvmlShutdown lib,
                  nvmlDeviceGetHandleByPciBusId_v2 := nvmlDeviceGetHandleByPciBusId_v2 lib,
                  nvmlDeviceGetUtilizationRates := nvmlDeviceGetUtilizationRates lib,
                  nvmlDeviceGetMemoryInfo := nvmlDeviceGetMemoryInfo lib,
                  nvmlDeviceGetTemperature := nvmlDeviceGetTemperature lib \<rparr>
      in if nvmlInit_v2 p1 = None \<or> nvmlShutdown p1 = None
            \<or> nvmlDeviceGetHandleByPciBusId_v2 p1 = None
            \<or> nvmlDeviceGetUtilizationRates p1 = None
            \<or> nvmlDeviceGetMemoryInfo p1 = None \<or> nvmlDeviceGetTemperature p1 = None
         then (False, p1)
         else (True, p1\<lparr> nvmlDeviceGetClockInfo := nvmlDeviceGetClockInfo lib \<rparr>))"

definition initializeNvml :: "host \<Rightarrow> NvidiaBackendPrivate \<Rightarrow> bool \<times> NvidiaBackendPrivate" where
  "initializeNvml h d =
     (if initialized d then (True, d)
      else if env_is_set h ''DSM_DISABLE_NVML'' then (False, d)
      else
        (let (probes, libPath) = probe_candidates (sys h) getNvmlLibraryCandidates;
             fileName = (if libPath = [] then ''nvidia-ml'' else libPath);
             d1 = d\<lparr>actions := actions d @ probes @ [LoadLibrary fileName]\<rparr>
         in case load_library h fileName of
              None \<Rightarrow> (False, d1)
            | Some lib \<Rightarrow>
                (let (resolved, p) = resolveFunctions lib (pointers d1);
                     d2 = d1\<lparr>nvmlLib_isLoaded := True, pointers := p,
                             actions := actions d1 @ [ResolveSymbols]\<rparr>
                 in if \<not> resolved
                    then (False, d2\<lparr>nvmlLib_isLoaded := False,
                                    actions := actions d2 @ [UnloadLibrary]\<rparr>)
                    else if nvmlInit_v2 p \<noteq> Some NVML_SUCCESS
                    then (False, d2\<lparr>nvmlLib_isLoaded := False,
                                    actions := actions d2 @ [CallInit, UnloadLibrary]\<rparr>)
                    else (True, d2\<lparr>initialized := True,
                                   actions := actions d2 @ [CallInit]\<rparr>))))"

text \<open>The constructor runs \<open>initializeNvml\<close> on a fresh private part.\<close>

definition GpuBackendNvidia_new :: "host \<Rightarrow> NvidiaBackendPrivate" where
  "GpuBackendNvidia_new h = snd (initializeNvml h new_NvidiaBackendPrivate)"

definition isNvmlAvailable :: "NvidiaBackendPrivate \<Rightarrow> bool" where
  "isNvmlAvailable d = initialized d"

definition GpuBackendNvidia_supports :: "NvidiaBackendPrivate \<Rightarrow> GpuDevice \<Rightarrow> bool" where
  "GpuBackendNvidia_supports d device \<longleftrightarrow> vendor device = Nvidia \<and> isNvmlAvailable d"

text \<open>
  A call through a function pointer that is \<open>nullptr\<close> ends the process; it is the only
  error a stats read can raise.  \<open>readStats\<close> calls \<open>nvmlDeviceGetClockInfo\<close> without
  testing the pointer.
\<close>

datatype crash = NullFunctionCall

definition getNvmlDevice :: "NvidiaBackendPrivate \<Rightarrow> GpuDevice \<Rightarrow> crash + nat option" where
  "getNvmlDevice d device =
     (if \<not> isNvmlAvailable d then Inr None
      else (case nvmlDeviceGetHandleByPciBusId_v2 (pointers d) of
              None \<Rightarrow> Inl NullFunctionCall
            | Some f \<Rightarrow>
                (case f (pciBusId device) of
                   (result, handle) \<Rightarrow>
                     if result \<noteq> NVML_SUCCESS then Inr None else Inr (Some handle))))"

text \<open>A clock in MHz held in an \<open>unsigned int\<close>, widened, multiplied and stored into an \<open>int\<close>.\<close>

definition unsigned_mhz_to_khz :: "cint \<Rightarrow> cint" where
  "unsigned_mhz_to_khz clock = ucast ((ucast clock :: qint64) * 1000)"

definition nvidia_has_data :: "GpuStats \<Rightarrow> bool" where
  "nvidia_has_data out \<longleftrightarrow>
     0 \<le>s utilizationPercent out \<or> 0 < memoryTotalBytes out \<or> 0 \<le>s temperatureC out
     \<or> 0 <s coreClockkHz out \<or> 0 <s memoryClockkHz out"

definition GpuBackendNvidia_readStats ::
  "NvidiaBackendPrivate \<Rightarrow> GpuDevice \<Rightarrow> GpuStats \<Rightarrow> crash + bool \<times> GpuStats" where
  "GpuBackendNvidia_readStats d device out =
     (if \<not> isNvmlAvailable d then Inr (False, out)
      else
        (case getNvmlDevice d device of
           Inl e \<Rightarrow> Inl e
         | Inr None \<Rightarrow> Inr (False, out)
         | Inr (Some nvmlDevice) \<Rightarrow>
             (case (nvmlDeviceGetUtilizationRates (pointers d),
                    nvmlDeviceGetMemoryInfo (pointers d),
                    nvmlDeviceGetTemperature (pointers d),
                    nvmlDeviceGetClockInfo (pointers d)) of
                (Some getUtil, Some getMem, Some getTemp, Some getClock) \<Rightarrow>
                  (let out1 = (case getUtil nvmlDevice of (rc, gpu, mem) \<Rightarrow>
                                 if rc = NVML_SUCCESS then out\<lparr>utilizationPercent := gpu\<rparr>
                                 else out);
                       out2 = (case getMem nvmlDevice of (rc, total1, free1, used1) \<Rightarrow>
                                 if rc = NVML_SUCCESS
                                 then out1\<lparr>memoryTotalBytes := total1, memoryUsedBytes := used1\<rparr>
                                 else out1);
                       out3 = (case getTemp nvmlDevice NVML_TEMPERATURE_GPU of (rc, t) \<Rightarrow>
                                 if rc = NVML_SUCCESS then out2\<lparr>temperatureC := t\<rparr> else out2);
                       out4 = (case getClock nvmlDevice NVML_CLOCK_GRAPHICS of (rc, clock) \<Rightarrow>
                                 if rc = NVML_SUCCESS
                                 then out3\<lparr>coreClockkHz := unsigned_mhz_to_khz clock\<rparr> else out3);
                       out5 = (case getClock nvmlDevice NVML_CLOCK_MEM of (rc, clock) \<Rightarrow>
                                 if rc = NVML_SUCCESS
                                 then out4\<lparr>memoryClockkHz := unsigned_mhz_to_khz clock\<rparr> else out4)
                   in Inr (nvidia_has_data out5, out5))
              | _ \<Rightarrow> Inl NullFunctionCall)))"

section \<open>The reader of gpu.cpp\<close>

subsection \<open>More of QString and QByteArray\<close>

text \<open>
  \<open>indexOf\<close> gives the position of the first occurrence, \<open>None\<close> standing for \<open>-1\<close>;
  \<open>indexOf_from\<close> starts the search at a position; \<open>replace_all old new\<close> is
  \<open>QString::replace(before, after)\<close> for a non-empty \<open>before\<close>.
\<close>

fun indexOf :: "string \<Rightarrow> string \<Rightarrow> nat option" where
  "indexOf needle [] = (if needle = [] then Some 0 else None)"
| "indexOf needle (c # cs) =
     (if take (length needle) (c # cs) = needle then Some 0
      else map_option Suc (indexOf needle cs))"

definition indexOf_from :: "string \<Rightarrow> nat \<Rightarrow> string \<Rightarrow> nat option" where
  "indexOf_from needle from s = map_option (\<lambda>i. i + from) (indexOf needle (drop from s))"

definition contains :: "string \<Rightarrow> string \<Rightarrow> bool" where
  "contains s needle \<longleftrightarrow> indexOf needle s \<noteq> None"

function replace_all :: "string \<Rightarrow> string \<Rightarrow> string \<Rightarrow> string" where
  "replace_all old new [] = []"
| "replace_all old new (c # cs) =
     (if old \<noteq> [] \<and> take (length old) (c # cs) = old
      then new @ replace_all old new (drop (length old) (c # cs))
      else c # replace_all old new cs)"
  by pat_completeness auto
termination
  by (relation "measure (\<lambda>(old, new, s). length s)") auto

text \<open>
  \<open>QFile::readLine\<close> keeps the line feed; the lines of a file, as the loop
  \<open>while (true) { line = f.readLine(); if (line.isEmpty()) break; ... }\<close> meets them.
\<close>

definition QFile_readLine :: "string \<Rightarrow> string" where
  "QFile_readLine content =
     takeWhile (\<lambda>c. c \<noteq> CHR 0x0A) content
       @ (if CHR 0x0A \<in> set content then [CHR 0x0A] else [])"

definition byte_lines :: "string \<Rightarrow> string list" where
  "byte_lines content =
     (let parts = split_on (CHR 0x0A) content in
      map (\<lambda>part. part @ [CHR 0x0A]) (butlast parts)
        @ (if last parts = [] then [] else [last parts]))"

subsection \<open>Reading files\<close>

definition GpuReader_readFirstLine :: "sysfs \<Rightarrow> string \<Rightarrow> string option" where
  "GpuReader_readFirstLine fs filePath =
     (case file_text fs filePath of
        None \<Rightarrow> None
      | Some content \<Rightarrow>
          if QFile_readLine content = [] then None
          else if trimmed (QFile_readLine content) = [] then None
          else Some (trimmed (QFile_readLine content)))"

definition GpuReader_readIntegerFile :: "sysfs \<Rightarrow> string \<Rightarrow> qint64 option" where
  "GpuReader_readIntegerFile fs filePath =
     (case GpuReader_readFirstLine fs filePath of
        None \<Rightarrow> None
      | Some s \<Rightarrow> toLongLong (trimmed s))"

subsection \<open>Enumeration\<close>

definition detectVendor :: "sysfs \<Rightarrow> string \<Rightarrow> GpuVendor" where
  "detectVendor fs path =
     (case GpuReader_readFirstLine fs (path @ ''/vendor'') of
        None \<Rightarrow> Unknown
      | Some ven0 \<Rightarrow>
          (let ven = toLower (trimmed ven0) in
           if ven = ''0x10de'' then Nvidia
           else if ven = ''0x1002'' \<or> ven = ''0x1022'' then AMD
           else if ven = ''0x8086'' then Intel
           else Unknown))"

fun pci_slot_of_lines :: "string list \<Rightarrow> string" where
  "pci_slot_of_lines [] = []"
| "pci_slot_of_lines (line # lines) =
     (if startsWith line ''PCI_SLOT_NAME=''
      then (case indexOf ''='' line of
              Some eq \<Rightarrow> trimmed (drop (eq + 1) line)
            | None \<Rightarrow> pci_slot_of_lines lines)
      else pci_slot_of_lines lines)"

definition detectPciBusId :: "sysfs \<Rightarrow> string \<Rightarrow> string" where
  "detectPciBusId fs path =
     (case file_text fs (path @ ''/uevent'') of
        None \<Rightarrow> []
      | Some content \<Rightarrow> pci_slot_of_lines (byte_lines content))"

text \<open>The product text of an \<open>lspci\<close> line; \<open>None\<close> when the parse gives nothing to return.\<close>

definition lspci_product :: "string \<Rightarrow> string option" where
  "lspci_product raw =
     (let output = trimmed raw in
      if output = [] then None
      else
       (case indexOf '':'' output of
          None \<Rightarrow> None
        | Some firstColon \<Rightarrow>
            if firstColon = 0 then None
            else
             (case indexOf_from '':'' (firstColon + 1) output of
                None \<Rightarrow> None
              | Some secondColon \<Rightarrow>
                  (let info0 = trimmed (drop (secondColon + 1) output);
                       info1 = (case indexOf '' (rev '' info0 of
                                  Some revIndex \<Rightarrow>
                                    if 0 < revIndex then take revIndex info0 else info0
                                | None \<Rightarrow> info0);
                       info2 =
                         (if contains info1 ''NVIDIA Corporation''
                          then replace_all ''NVIDIA Corporation '' [] info1
                          else if contains info1 ''Advanced Micro Devices, Inc. [AMD/ATI]''
                          then replace_all ''Advanced Micro Devices, Inc. [AMD/ATI] '' ''AMD '' info1
                          else if contains info1 ''Intel Corporation''
                          then replace_all ''Intel Corporation '' ''Intel '' info1
                          else info1)
                   in if info2 = [] then None else Some (trimmed info2)))))"

fun driver_name_of_lines :: "string list \<Rightarrow> string \<Rightarrow> string" where
  "driver_name_of_lines [] nm = nm"
| "driver_name_of_lines (line # lines) nm =
     (if startsWith line ''DRIVER=''
      then (case indexOf ''='' line of
              Some eq \<Rightarrow> driver_name_of_lines lines (trimmed (drop (eq + 1) line))
            | None \<Rightarrow> driver_name_of_lines lines nm)
      else if startsWith line ''PCI_ID=''
      then (case indexOf ''='' line of
              Some eq \<Rightarrow>
                driver_name_of_lines lines
                  (if nm \<noteq> [] then nm @ '' ('' @ trimmed (drop (eq + 1) line) @ '')'' else nm)
            | None \<Rightarrow> driver_name_of_lines lines nm)
      else driver_name_of_lines lines nm)"

definition detectName :: "sysfs \<Rightarrow> string \<Rightarrow> GpuVendor \<Rightarrow> string" where
  "detectName fs path ven =
     (case GpuReader_readFirstLine fs (path @ ''/product_name'') of
        Some nm \<Rightarrow> trimmed nm
      | None \<Rightarrow>
          (let busId = detectPciBusId fs path;
               fromLspci =
                 (if busId = [] then None
                  else (case lspci_output fs busId of
                          None \<Rightarrow> None
                        | Some raw \<Rightarrow> lspci_product raw))
           in case fromLspci of
                Some product \<Rightarrow> product
              | None \<Rightarrow>
                  (let nm = (case file_text fs (path @ ''/uevent'') of
                               None \<Rightarrow> []
                             | Some content \<Rightarrow> driver_name_of_lines (byte_lines content) [])
                   in if nm \<noteq> [] then nm
                      else (case ven of
                              Nvidia \<Rightarrow> ''NVIDIA GPU''
                            | AMD \<Rightarrow> ''AMD GPU''
                            | Intel \<Rightarrow> ''Intel GPU''
                            | Unknown \<Rightarrow> ''GPU''))))"

text \<open>
  The pattern \<open>^card\d+$\<close>, compiled without options.  \<open>QRegularExpression\<close> is PCRE2,
  where \<open>$\<close> holds at the very end of the subject and also just before a line feed that
  is its last character (\<open>re_end\<close>); \<open>re_digits_end\<close> is \<open>\d+$\<close> anchored at the start.
\<close>

definition re_end :: "string \<Rightarrow> bool" where
  "re_end s \<longleftrightarrow> s = [] \<or> s = [CHR 0x0A]"

fun re_digits_end :: "string \<Rightarrow> bool" where
  "re_digits_end [] = False"
| "re_digits_end (c # cs) = (isDigit c \<and> (re_digits_end cs \<or> re_end cs))"

definition onlyCardDigits :: "string \<Rightarrow> bool" where
  "onlyCardDigits entry \<longleftrightarrow> startsWith entry ''card'' \<and> re_digits_end (drop 4 entry)"

definition drmDir :: string where
  "drmDir = ''/sys/class/drm''"

fun enumerate_cards :: "sysfs \<Rightarrow> string list \<Rightarrow> GpuDevice list" where
  "enumerate_cards fs [] = []"
| "enumerate_cards fs (entry # entries) =
     (if \<not> onlyCardDigits entry then enumerate_cards fs entries
      else if \<not> path_exists fs (absoluteFilePath drmDir entry @ ''/device'')
      then enumerate_cards fs entries
      else if detectVendor fs (absoluteFilePath drmDir entry @ ''/device'') = Unknown
      then enumerate_cards fs entries
      else \<lparr> cardPath = absoluteFilePath drmDir entry,
             devicePath = absoluteFilePath drmDir entry @ ''/device'',
             pciBusId = detectPciBusId fs (absoluteFilePath drmDir entry @ ''/device''),
             name = detectName fs (absoluteFilePath drmDir entry @ ''/device'')
                      (detectVendor fs (absoluteFilePath drmDir entry @ ''/device'')),
             vendor = detectVendor fs (absoluteFilePath drmDir entry @ ''/device'') \<rparr>
           # enumerate_cards fs entries)"

definition enumerate :: "sysfs \<Rightarrow> GpuDevice list" where
  "enumerate fs = enumerate_cards fs (list_dirs_named fs drmDir ''card*'')"

subsection \<open>The vendor readers of gpu.cpp\<close>

text \<open>The lambda \<open>readInteger\<close> of \<open>readHwmonTempC\<close>.\<close>

definition readInteger :: "sysfs \<Rightarrow> string \<Rightarrow> qint64 option" where
  "readInteger fs filePath =
     (case file_text fs filePath of
        None \<Rightarrow> None
      | Some content \<Rightarrow>
          (case readLine content of
             None \<Rightarrow> None
           | Some s \<Rightarrow> if s = [] then None else toLongLong (trimmed s)))"

fun first_temp_file :: "sysfs \<Rightarrow> string \<Rightarrow> string list \<Rightarrow> qint64 option" where
  "first_temp_file fs d [] = None"
| "first_temp_file fs d (t # ts) =
     (case readInteger fs (absoluteFilePath d t) of
        Some milliC \<Rightarrow> Some milliC
      | None \<Rightarrow> first_temp_file fs d ts)"

fun first_hwmon_temp :: "sysfs \<Rightarrow> string \<Rightarrow> string list \<Rightarrow> qint64 option" where
  "first_hwmon_temp fs hwmonDir [] = None"
| "first_hwmon_temp fs hwmonDir (entry # entries) =
     (case first_temp_file fs (absoluteFilePath hwmonDir entry)
             (list_files_named fs (absoluteFilePath hwmonDir entry) ''temp*_input'') of
        Some milliC \<Rightarrow> Some milliC
      | None \<Rightarrow> first_hwmon_temp fs hwmonDir entries)"

definition readHwmonTempC :: "sysfs \<Rightarrow> string \<Rightarrow> cint \<Rightarrow> bool \<times> cint" where
  "readHwmonTempC fs path outTempC =
     (if \<not> dir_exists fs (path @ ''/hwmon'') then (False, outTempC)
      else (case first_hwmon_temp fs (path @ ''/hwmon'') (list_dirs fs (path @ ''/hwmon'')) of
              Some milliC \<Rightarrow> (True, ucast (div_qint64 milliC 1000))
            | None \<Rightarrow> (False, outTempC)))"

definition readAmdClockInfo :: "sysfs \<Rightarrow> string \<Rightarrow> bool \<times> cint \<times> cint" where
  "readAmdClockInfo fs path =
     (let (hasMem, memoryClock) =
            (case GpuReader_readFirstLine fs (path @ ''/pp_dpm_mclk'') of
               None \<Rightarrow> (False, - 1)
             | Some mclkContent \<Rightarrow>
                 (case current_clock_of_lines re_tail_ci
                         (split_skip_empty (CHR 0x0A) mclkContent) of
                    Some clock \<Rightarrow> (True, clock)
                  | None \<Rightarrow> (False, - 1)));
          (hasGfx, graphicsClock) =
            (case GpuReader_readFirstLine fs (path @ ''/pp_dpm_sclk'') of
               None \<Rightarrow> (False, - 1)
             | Some sclkContent \<Rightarrow>
                 (case current_clock_of_lines re_tail_ci
                         (split_skip_empty (CHR 0x0A) sclkContent) of
                    Some clock \<Rightarrow> (True, clock)
                  | None \<Rightarrow> (False, - 1)))
      in (hasMem \<or> hasGfx, memoryClock, graphicsClock))"

definition readStatsAmd :: "sysfs \<Rightarrow> string \<Rightarrow> GpuStats \<Rightarrow> bool \<times> GpuStats" where
  "readStatsAmd fs path outStats =
     (let util = (case GpuReader_readIntegerFile fs (path @ ''/gpu_busy_percent'') of
                    Some v \<Rightarrow> v | None \<Rightarrow> - 1);
          out1 = (if 0 \<le>s util then outStats\<lparr>utilizationPercent := ucast util\<rparr> else outStats);
          out2 = (case GpuReader_readIntegerFile fs (path @ ''/mem_info_vram_used'') of
                    Some vramUsed \<Rightarrow> out1\<lparr>memoryUsedBytes := vramUsed\<rparr>
                  | None \<Rightarrow> out1);
          out3 = (case GpuReader_readIntegerFile fs (path @ ''/mem_info_vram_total'') of
                    Some vramTotal \<Rightarrow> out2\<lparr>memoryTotalBytes := vramTotal\<rparr>
                  | None \<Rightarrow> out2);
          (okTemp, tempC) = readHwmonTempC fs path (- 1);
          out4 = (if okTemp then out3\<lparr>temperatureC := tempC\<rparr> else out3);
          (okClock, memoryClock, graphicsClock) = readAmdClockInfo fs path;
          out5 = (if okClock \<and> 0 <s graphicsClock
                  then out4\<lparr>coreClockkHz := graphicsClock * 1000\<rparr> else out4);
          out6 = (if okClock \<and> 0 <s memoryClock
                  then out5\<lparr>memoryClockkHz := memoryClock * 1000\<rparr> else out5)
      in (0 \<le>s utilizationPercent out6 \<or> 0 < memoryTotalBytes out6
            \<or> 0 \<le>s temperatureC out6 \<or> 0 <s coreClockkHz out6 \<or> 0 <s memoryClockkHz out6,
          out6))"

text \<open>
  The loop of \<open>readStatsIntel\<close> over the engine directories: \<open>sum\<close> is a \<open>qint64\<close>,
  \<open>count\<close> an \<open>int\<close>.
\<close>

fun sum_busy_percent :: "sysfs \<Rightarrow> string \<Rightarrow> string list \<Rightarrow> qint64 \<Rightarrow> cint \<Rightarrow> qint64 \<times> cint" where
  "sum_busy_percent fs engineDir [] sm count = (sm, count)"
| "sum_busy_percent fs engineDir (e # engines) sm count =
     (let busy = (case GpuReader_readIntegerFile fs
                         (absoluteFilePath engineDir (e @ ''/busy_percent'')) of
                    Some v \<Rightarrow> v | None \<Rightarrow> - 1)
      in if 0 \<le>s busy then sum_busy_percent fs engineDir engines (sm + busy) (count + 1)
         else sum_busy_percent fs engineDir engines sm count)"

definition readStatsIntel :: "sysfs \<Rightarrow> string \<Rightarrow> GpuStats \<Rightarrow> bool \<times> GpuStats" where
  "readStatsIntel fs path outStats =
     (let out1 =
            (if dir_exists fs (path @ ''/engine'')
             then (let (sm, count) =
                         sum_busy_percent fs (path @ ''/engine'') (list_dirs fs (path @ ''/engine'')) 0 0
                   in if 0 <s count
                      then outStats\<lparr>utilizationPercent := ucast (div_qint64 sm (scast count))\<rparr>
                      else outStats)
             else outStats);
          (okTemp, tempC) = readHwmonTempC fs path (- 1);
          out2 = (if okTemp then out1\<lparr>temperatureC := tempC\<rparr> else out1);
          out3 = (case GpuReader_readIntegerFile fs (path @ ''/gt_cur_freq_mhz'') of
                    Some currentFreq \<Rightarrow>
                      if 0 <s currentFreq then out2\<lparr>coreClockkHz := ucast (currentFreq * 1000)\<rparr>
                      else out2
                  | None \<Rightarrow> out2);
          out4 = out3\<lparr>memoryClockkHz := - 1\<rparr>
      in (0 \<le>s utilizationPercent out4 \<or> 0 \<le>s temperatureC out4 \<or> 0 <s coreClockkHz out4,
          out4))"

text \<open>
  \<open>readStatsNvidia\<close> loads the library anew on every call.  The clocks are read by
  \<open>readNvmlClockInfo\<close>, which tests the pointer and multiplies in \<open>unsigned int\<close>.
\<close>

definition readNvmlClockInfo :: "nvml_library \<Rightarrow> nat \<Rightarrow> GpuStats \<Rightarrow> GpuStats" where
  "readNvmlClockInfo lib nvmlDevice outStats =
     (case nvmlDeviceGetClockInfo lib of
        None \<Rightarrow> outStats
      | Some pGetClockInfo \<Rightarrow>
          (let out1 = (case pGetClockInfo nvmlDevice NVML_CLOCK_GRAPHICS of (rc, graphicsClock) \<Rightarrow>
                         if rc = NVML_SUCCESS \<and> 0 < graphicsClock
                         then outStats\<lparr>coreClockkHz := graphicsClock * 1000\<rparr> else outStats)
           in (case pGetClockInfo nvmlDevice NVML_CLOCK_MEM of (rc, memoryClock) \<Rightarrow>
                 if rc = NVML_SUCCESS \<and> 0 < memoryClock
                 then out1\<lparr>memoryClockkHz := memoryClock * 1000\<rparr> else out1)))"

definition readStatsNvidia :: "host \<Rightarrow> GpuDevice \<Rightarrow> GpuStats \<Rightarrow> bool \<times> GpuStats" where
  "readStatsNvidia h device outStats =
     (if env_is_set h ''DSM_DISABLE_NVML'' then (False, outStats)
      else
        (let libPath = (case find (path_exists (sys h))
                               [''/usr/lib/x86_64-linux-gnu/libnvidia-ml.so.1'',
                                ''/usr/lib64/libnvidia-ml.so.1'',
                                ''/usr/lib/libnvidia-ml.so.1''] of
                          Some c \<Rightarrow> c | None \<Rightarrow> [])
         in case load_library h (if libPath = [] then ''nvidia-ml'' else libPath) of
              None \<Rightarrow> (False, outStats)
            | Some lib \<Rightarrow>
                (case (nvmlInit_v2 lib, nvmlShutdown lib, nvmlDeviceGetHandleByPciBusId_v2 lib,
                       nvmlDeviceGetUtilizationRates lib, nvmlDeviceGetMemoryInfo lib,
                       nvmlDeviceGetTemperature lib) of
                   (Some pInit, Some pShutdown, Some pGetByBusId,
                    Some pGetUtil, Some pGetMem, Some pGetTemp) \<Rightarrow>
                     if pInit \<noteq> NVML_SUCCESS then (False, outStats)
                     else (case pGetByBusId (pciBusId device) of (rc, handle) \<Rightarrow>
                       if rc \<noteq> NVML_SUCCESS then (False, outStats)
                       else
                         (let out1 = (case pGetUtil handle of (rc1, gpu, mem) \<Rightarrow>
                                        if rc1 = NVML_SUCCESS
                                        then outStats\<lparr>utilizationPercent := gpu\<rparr> else outStats);
                              out2 = (case pGetMem handle of (rc2, total1, free1, used1) \<Rightarrow>
                                        if rc2 = NVML_SUCCESS
                                        then out1\<lparr>memoryTotalBytes := total1,
                                                  memoryUsedBytes := used1\<rparr>
                                        else out1);
                              out3 = (case pGetTemp handle NVML_TEMPERATURE_GPU of (rc3, t) \<Rightarrow>
                                        if rc3 = NVML_SUCCESS then out2\<lparr>temperatureC := t\<rparr>
                                        else out2)
                          in (True, readNvmlClockInfo lib handle out3)))
                 | _ \<Rightarrow> (False, outStats))))"

definition GpuReader_readStats :: "host \<Rightarrow> GpuDevice \<Rightarrow> GpuStats \<Rightarrow> bool \<times> GpuStats" where
  "GpuReader_readStats h device outStats =
     (case vendor device of
        Nvidia \<Rightarrow> readStatsNvidia h device outStats
      | AMD \<Rightarrow> readStatsAmd (sys h) (devicePath device) outStats
      | Intel \<Rightarrow> readStatsIntel (sys h) (devicePath device) outStats
      | Unknown \<Rightarrow> (False, outStats))"

section \<open>The service (gpu_backend.cpp)\<close>

text \<open>
  The wrapper classes \<open>NvidiaBackend\<close>, \<open>AmdBackend\<close> and \<open>IntelBackend\<close> forward to the
  backend they own.  The constructor of \<open>GpuService\<close> fills \<open>m_backends\<close> in this order.
  The state of the service is the cached device list, the private part of the NVIDIA
  backend and the engine cache of the Intel backend; the AMD backend has no members.
\<close>

datatype GpuBackend = NvidiaBackend | AmdBackend | IntelBackend

definition m_backends :: "GpuBackend list" where
  "m_backends = [NvidiaBackend, AmdBackend, IntelBackend]"

record GpuService =
  m_devices :: "GpuDevice list"
  nvidia_d_ptr :: NvidiaBackendPrivate
  m_engineCache :: engine_cache

definition new_GpuService :: "host \<Rightarrow> GpuService" where
  "new_GpuService h =
     \<lparr> m_devices = [], nvidia_d_ptr = GpuBackendNvidia_new h, m_engineCache = Map.empty \<rparr>"

fun supports :: "GpuService \<Rightarrow> GpuBackend \<Rightarrow> GpuDevice \<Rightarrow> bool" where
  "supports svc NvidiaBackend device = GpuBackendNvidia_supports (nvidia_d_ptr svc) device"
| "supports svc AmdBackend device = GpuBackendAmd_supports device"
| "supports svc IntelBackend device = GpuBackendIntel_supports device"

fun readStats ::
  "host \<Rightarrow> GpuService \<Rightarrow> GpuBackend \<Rightarrow> GpuDevice \<Rightarrow> GpuStats
     \<Rightarrow> crash + bool \<times> GpuStats \<times> GpuService" where
  "readStats h svc NvidiaBackend device out =
     (case GpuBackendNvidia_readStats (nvidia_d_ptr svc) device out of
        Inl e \<Rightarrow> Inl e
      | Inr (ok, out') \<Rightarrow> Inr (ok, out', svc))"
| "readStats h svc AmdBackend device out =
     (case GpuBackendAmd_readStats (sys h) device out of
        (ok, out') \<Rightarrow> Inr (ok, out', svc))"
| "readStats h svc IntelBackend device out =
     (case GpuBackendIntel_readStats (sys h) (m_engineCache svc) device out of
        (ok, out', cache') \<Rightarrow> Inr (ok, out', svc\<lparr>m_engineCache := cache'\<rparr>))"

fun readStatsFor_loop ::
  "host \<Rightarrow> GpuService \<Rightarrow> GpuBackend list \<Rightarrow> GpuDevice \<Rightarrow> GpuStats
     \<Rightarrow> crash + bool \<times> GpuStats \<times> GpuService" where
  "readStatsFor_loop h svc [] device out = Inr (False, out, svc)"
| "readStatsFor_loop h svc (b # bs) device out =
     (if supports svc b device then readStats h svc b device out
      else readStatsFor_loop h svc bs device out)"

definition readStatsFor ::
  "host \<Rightarrow> GpuService \<Rightarrow> GpuDevice \<Rightarrow> GpuStats \<Rightarrow> crash + bool \<times> GpuStats \<times> GpuService" where
  "readStatsFor h svc device out = readStatsFor_loop h svc m_backends device out"

definition devices :: "host \<Rightarrow> GpuService \<Rightarrow> GpuDevice list \<times> GpuService" where
  "devices h svc =
     (let svc' = (if m_devices svc = [] then svc\<lparr>m_devices := enumerate (sys h)\<rparr> else svc)
      in (m_devices svc', svc'))"

section \<open>The delta engine of the system server (systemdbusserver.cpp)\<close>

text \<open>
  Modelled from the spec: the struct \<open>ProcessDeltaData\<close> is declared in
  systemdbusserver.h, which is not among the sources.  Section 3 of the specification gives
  it as the per-PID last-observed cumulative values for a fixed set of fields, each paired
  with a first-sample flag, created lazily on first observation of a PID.  The field names
  are the ones \<open>calculateDelta\<close> dereferences; a freshly created entry has every value 0
  and every first-time flag set.
\<close>

record ProcessDeltaData =
  utime :: quint64
  stime :: quint64
  cutime :: quint64
  cstime :: quint64
  read_bytes :: quint64
  write_bytes :: quint64
  cancelled_write_bytes :: quint64
  utimeFirstTime :: bool
  stimeFirstTime :: bool
  cutimeFirstTime :: bool
  cstimeFirstTime :: bool
  readBytesFirstTime :: bool
  writeBytesFirstTime :: bool
  cancelledWriteBytesFirstTime :: bool

definition newProcessDeltaData :: ProcessDeltaData where
  "newProcessDeltaData =
     \<lparr> utime = 0, stime = 0, cutime = 0, cstime = 0,
       read_bytes = 0, write_bytes = 0, cancelled_write_bytes = 0,
       utimeFirstTime = True, stimeFirstTime = True, cutimeFirstTime = True,
       cstimeFirstTime = True, readBytesFirstTime = True, writeBytesFirstTime = True,
       cancelledWriteBytesFirstTime = True \<rparr>"

text \<open>
  \<open>calculateDelta\<close> picks a pair of pointers (\<open>lastValuePtr\<close>, \<open>firstTimePtr\<close>) into the
  entry by comparing the field name; \<open>delta_slot\<close> names the pair, \<open>select_slot\<close> is the
  chain of string comparisons (both pointers stay null for any other name).
\<close>

datatype delta_slot =
  SlotUtime | SlotStime | SlotCutime | SlotCstime
  | SlotReadBytes | SlotWriteBytes | SlotCancelledWriteBytes

definition select_slot :: "string \<Rightarrow> delta_slot option" where
  "select_slot field =
     (if field = ''utime'' then Some SlotUtime
      else if field = ''stime'' then Some SlotStime
      else if field = ''cutime'' then Some SlotCutime
      else if field = ''cstime'' then Some SlotCstime
      else if field = ''read_bytes'' then Some SlotReadBytes
      else if field = ''write_bytes'' then Some SlotWriteBytes
      else if field = ''cancelled_write_bytes'' then Some SlotCancelledWriteBytes
      else None)"

fun lastValue :: "delta_slot \<Rightarrow> ProcessDeltaData \<Rightarrow> quint64" where
  "lastValue SlotUtime d = utime d"
| "lastValue SlotStime d = stime d"
| "lastValue SlotCutime d = cutime d"
| "lastValue SlotCstime d = cstime d"
| "lastValue SlotReadBytes d = read_bytes d"
| "lastValue SlotWriteBytes d = write_bytes d"
| "lastValue SlotCancelledWriteBytes d = cancelled_write_bytes d"

fun firstTime :: "delta_slot \<Rightarrow> ProcessDeltaData \<Rightarrow> bool" where
  "firstTime SlotUtime d = utimeFirstTime d"
| "firstTime SlotStime d = stimeFirstTime d"
| "firstTime SlotCutime d = cutimeFirstTime d"
| "firstTime SlotCstime d = cstimeFirstTime d"
| "firstTime SlotReadBytes d = readBytesFirstTime d"
| "firstTime SlotWriteBytes d = writeBytesFirstTime d"
| "firstTime SlotCancelledWriteBytes d = cancelledWriteBytesFirstTime d"

fun storeLastValue :: "delta_slot \<Rightarrow> quint64 \<Rightarrow> ProcessDeltaData \<Rightarrow> ProcessDeltaData" where
  "storeLastValue SlotUtime v d = d\<lparr>utime := v\<rparr>"
| "storeLastValue SlotStime v d = d\<lparr>stime := v\<rparr>"
| "storeLastValue SlotCutime v d = d\<lparr>cutime := v\<rparr>"
| "storeLastValue SlotCstime v d = d\<lparr>cstime := v\<rparr>"
| "storeLastValue SlotReadBytes v d = d\<lparr>read_bytes := v\<rparr>"
| "storeLastValue SlotWriteBytes v d = d\<lparr>write_bytes := v\<rparr>"
| "storeLastValue SlotCancelledWriteBytes v d = d\<lparr>cancelled_write_bytes := v\<rparr>"

fun storeFirstTime :: "delta_slot \<Rightarrow> bool \<Rightarrow> ProcessDeltaData \<Rightarrow> ProcessDeltaData" where
  "storeFirstTime SlotUtime b d = d\<lparr>utimeFirstTime := b\<rparr>"
| "storeFirstTime SlotStime b d = d\<lparr>stimeFirstTime := b\<rparr>"
| "storeFirstTime SlotCutime b d = d\<lparr>cutimeFirstTime := b\<rparr>"
| "storeFirstTime SlotCstime b d = d\<lparr>cstimeFirstTime := b\<rparr>"
| "storeFirstTime SlotReadBytes b d = d\<lparr>readBytesFirstTime := b\<rparr>"
| "storeFirstTime SlotWriteBytes b d = d\<lparr>writeBytesFirstTime := b\<rparr>"
| "storeFirstTime SlotCancelledWriteBytes b d = d\<lparr>cancelledWriteBytesFirstTime := b\<rparr>"

text \<open>
  \<open>m_processLastValues\<close> is a \<open>QMap<int, ProcessDeltaData>\<close>; \<open>operator[]\<close> inserts a
  default-constructed entry for a PID that has none, also when the field name is unknown.
  The function returns the delta and the updated map.
\<close>

type_synonym delta_map = "cint \<rightharpoonup> ProcessDeltaData"

definition calculateDelta ::
  "delta_map \<Rightarrow> cint \<Rightarrow> string \<Rightarrow> quint64 \<Rightarrow> quint64 \<times> delta_map" where
  "calculateDelta m pid field currentValue =
     (let lastData = (case m pid of None \<Rightarrow> newProcessDeltaData | Some d \<Rightarrow> d) in
      case select_slot field of
        None \<Rightarrow> (0, m(pid \<mapsto> lastData))
      | Some slot \<Rightarrow>
          if firstTime slot lastData
          then (0, m(pid \<mapsto> storeLastValue slot currentValue (storeFirstTime slot False lastData)))
          else
            (let delta = (if currentValue \<ge> lastValue slot lastData
                          then currentValue - lastValue slot lastData else 0)
             in (delta, m(pid \<mapsto> storeLastValue slot currentValue lastData))))"

definition resetProcessDeltaData :: "delta_map \<Rightarrow> cint \<Rightarrow> delta_map" where
  "resetProcessDeltaData m pid = m(pid := None)"

text \<open>
  A history of calls, oldest first, replayed from a map; \<open>previous_sample\<close> is the value
  passed by the most recent call of the history for the same PID and field name.
\<close>

type_synonym delta_call = "cint \<times> string \<times> quint64"

fun replay :: "delta_map \<Rightarrow> delta_call list \<Rightarrow> delta_map" where
  "replay m [] = m"
| "replay m ((pid, field, v) # cs) = replay (snd (calculateDelta m pid field v)) cs"

fun previous_sample :: "delta_call list \<Rightarrow> cint \<Rightarrow> string \<Rightarrow> quint64 option" where
  "previous_sample [] pid field = None"
| "previous_sample ((p, f, v) # cs) pid field =
     (case previous_sample cs pid field of
        Some w \<Rightarrow> Some w
      | None \<Rightarrow> if p = pid \<and> f = field then Some v else None)"

definition recognized_field :: "string \<Rightarrow> bool" where
  "recognized_field field \<longleftrightarrow>
     field \<in> set [''utime'', ''stime'', ''cutime'', ''cstime'',
                  ''read_bytes'', ''write_bytes'', ''cancelled_write_bytes'']"

text \<open>The baseline a map holds for a PID and a field: none while the first-time flag is set.\<close>

definition baseline :: "delta_map \<Rightarrow> cint \<Rightarrow> string \<Rightarrow> quint64 option" where
  "baseline m pid field =
     (case (m pid, select_slot field) of
        (Some d, Some slot) \<Rightarrow> if firstTime slot d then None else Some (lastValue slot d)
      | _ \<Rightarrow> None)"

section \<open>Concrete hosts for evaluation\<close>

text \<open>
  A file system that holds exactly the listed files: no directory exists but the current
  one, which is empty, and \<open>lspci\<close> is not installed.
\<close>

definition files_only :: "(string \<times> string) list \<Rightarrow> sysfs" where
  "files_only files =
     \<lparr> file_text = map_of files,
       path_exists = (\<lambda>p. p \<in> set (map fst files)),
       dir_exists = (\<lambda>p. p = ''.''),
       list_dirs = (\<lambda>p. []),
       list_dirs_named = (\<lambda>p pat. []),
       list_files_named = (\<lambda>p pat. []),
       lspci_output = (\<lambda>i. None) \<rparr>"

definition amd_card0 :: GpuDevice where
  "amd_card0 =
     \<lparr> cardPath = ''/sys/class/drm/card0'', devicePath = ''/sys/class/drm/card0/device'',
       pciBusId = ''0000:03:00.0'', name = ''AMD GPU'', vendor = AMD \<rparr>"

text \<open>The DPM table of the specification: three levels, the second one active.\<close>

definition dpm_table :: string where
  "dpm_table =
     ''0: 300Mhz'' @ [CHR 0x0A] @ ''1: 600Mhz *'' @ [CHR 0x0A] @ ''2: 900Mhz'' @ [CHR 0x0A]"

definition fs_dpm :: sysfs where
  "fs_dpm = files_only
     [(''/sys/class/drm/card0/device/pp_dpm_mclk'', dpm_table),
      (''/sys/class/drm/card0/device/pp_dpm_sclk'', dpm_table)]"

text \<open>A device whose \<open>mem_info_vram_used\<close> reads above its \<open>mem_info_vram_total\<close>.\<close>

definition fs_vram :: sysfs where
  "fs_vram = files_only
     [(''/sys/class/drm/card0/device/mem_info_vram_used'', ''200'' @ [CHR 0x0A]),
      (''/sys/class/drm/card0/device/mem_info_vram_total'', ''100'' @ [CHR 0x0A])]"

text \<open>A device whose \<open>gpu_busy_percent\<close> reads 150.\<close>

definition fs_busy :: sysfs where
  "fs_busy = files_only
     [(''/sys/class/drm/card0/device/gpu_busy_percent'', ''150'' @ [CHR 0x0A])]"

text \<open>
  \<open>/sys/class/drm\<close> with the listed entries, each with a \<open>device\<close> link whose \<open>vendor\<close>
  file holds the given text.
\<close>

definition drm_with :: "(string \<times> string) list \<Rightarrow> sysfs" where
  "drm_with cards =
     \<lparr> file_text = map_of (map (\<lambda>(entry, ven). (drmDir @ ''/'' @ entry @ ''/device/vendor'', ven)) cards),
       path_exists = (\<lambda>p. p \<in> set (map (\<lambda>(entry, ven). drmDir @ ''/'' @ entry @ ''/device'') cards)),
       dir_exists = (\<lambda>p. p = ''.'' \<or> p = drmDir),
       list_dirs = (\<lambda>p. if p = drmDir then map fst cards else []),
       list_dirs_named = (\<lambda>p pat. if p = drmDir \<and> pat = ''card*'' then map fst cards else []),
       list_files_named = (\<lambda>p pat. []),
       lspci_output = (\<lambda>i. None) \<rparr>"

text \<open>An NVML library with every symbol, one device at \<open>0000:01:00.0\<close>.\<close>

definition working_nvml :: nvml_library where
  "working_nvml =
     \<lparr> nvmlInit_v2 = Some 0,
       nvmlShutdown = Some 0,
       nvmlDeviceGetHandleByPciBusId_v2 =
         Some (\<lambda>busId. if busId = ''0000:01:00.0'' then (0, 1) else (2, 0)),
       nvmlDeviceGetUtilizationRates = Some (\<lambda>dev. (0, 45, 10)),
       nvmlDeviceGetMemoryInfo = Some (\<lambda>dev. (0, 8589934592, 6442450944, 2147483648)),
       nvmlDeviceGetTemperature = Some (\<lambda>dev sensor. (0, 60)),
       nvmlDeviceGetClockInfo = Some (\<lambda>dev type. (0, 1500)) \<rparr>"

definition nvidia_card0 :: GpuDevice where
  "nvidia_card0 =
     \<lparr> cardPath = ''/sys/class/drm/card0'', devicePath = ''/sys/class/drm/card0/device'',
       pciBusId = ''0000:01:00.0'', name = ''NVIDIA GPU'', vendor = Nvidia \<rparr>"

text \<open>
  A host with one NVIDIA card and the library installed, with and without the variable
  \<open>DSM_DISABLE_NVML\<close> in the environment.
\<close>

definition nvidia_sysfs :: sysfs where
  "nvidia_sysfs =
     (drm_with [(''card0'', ''0x10de'' @ [CHR 0x0A])])
       \<lparr> path_exists := (\<lambda>p. p = ''/sys/class/drm/card0/device''
                              \<or> p = ''/usr/lib/x86_64-linux-gnu/libnvidia-ml.so.1'') \<rparr>"

definition host_nvml_disabled :: host where
  "host_nvml_disabled =
     \<lparr> sys = nvidia_sysfs,
       env_is_set = (\<lambda>v. v = ''DSM_DISABLE_NVML''),
       load_library = (\<lambda>n. Some working_nvml) \<rparr>"

definition host_nvml_enabled :: host where
  "host_nvml_enabled =
     \<lparr> sys = nvidia_sysfs,
       env_is_set = (\<lambda>v. False),
       load_library = (\<lambda>n. Some working_nvml) \<rparr>"

text \<open>A host without any card, and the same host after an AMD card has appeared.\<close>

definition host_no_card :: host where
  "host_no_card =
     \<lparr> sys = drm_with [], env_is_set = (\<lambda>v. False), load_library = (\<lambda>n. None) \<rparr>"

definition host_amd_card :: host where
  "host_amd_card =
     \<lparr> sys = drm_with [(''card0'', ''0x1002'' @ [CHR 0x0A])],
       env_is_set = (\<lambda>v. False), load_library = (\<lambda>n. None) \<rparr>"

text \<open>
  \<open>/sys/class/drm\<close> with an AMD card, one of its connectors, and a card of a vendor
  the enumeration does not know.
\<close>

definition fs_mixed_cards :: sysfs where
  "fs_mixed_cards = drm_with
     [(''card0'', ''0x1002'' @ [CHR 0x0A]),
      (''card0-HDMI-A-1'', ''0x1002'' @ [CHR 0x0A]),
      (''card1'', ''0x1af4'' @ [CHR 0x0A])]"

text \<open>
  \<open>card<digits>\<close> in the words of the specification: the four letters and then one or
  more decimal digits, nothing else.
\<close>

definition card_digits :: "string \<Rightarrow> bool" where
  "card_digits entry \<longleftrightarrow>
     take 4 entry = ''card'' \<and> drop 4 entry \<noteq> [] \<and> list_all isDigit (drop 4 entry)"

text \<open>The vendor ids the enumeration knows, as \<open>detectVendor\<close> compares them.\<close>

definition known_vendor_ids :: "string list" where
  "known_vendor_ids = [''0x10de'', ''0x1002'', ''0x1022'', ''0x8086'']"

definition vendor_id :: "sysfs \<Rightarrow> string \<Rightarrow> string option" where
  "vendor_id fs path =
     map_option (\<lambda>ven. toLower (trimmed ven)) (GpuReader_readFirstLine fs (path @ ''/vendor''))"



text \<open>A device with only \<open>mem_info_vram_used\<close>.\<close>

definition fs_vram_used_only :: sysfs where
  "fs_vram_used_only = files_only
     [(''/sys/class/drm/card0/device/mem_info_vram_used'', ''200'' @ [CHR 0x0A])]"

text \<open>
  What the two VRAM files hold when both are present and parse as integers, and whether
  one of the three other reads of \<open>GpuBackendAmd::readStats\<close> sets \<open>hasData\<close>.
\<close>

definition vram_files :: "sysfs \<Rightarrow> string \<Rightarrow> (quint64 \<times> quint64) option" where
  "vram_files fs path =
     (case (readIntegerFile fs (path @ ''/mem_info_vram_used''),
            readIntegerFile fs (path @ ''/mem_info_vram_total'')) of
        (Some vramUsed, Some vramTotal) \<Rightarrow> Some (vramUsed, vramTotal)
      | _ \<Rightarrow> None)"

definition other_reads_have_data :: "sysfs \<Rightarrow> string \<Rightarrow> bool" where
  "other_reads_have_data fs path \<longleftrightarrow>
     fst (readGpuUtilization fs path (- 1))
     \<or> fst (GpuBackendAmd_readTemperature fs path (- 1))
     \<or> (case readClockInfo fs path (- 1) (- 1) of
           (okClock, memoryClock, graphicsClock) \<Rightarrow>
             okClock \<and> (0 <s memoryClock \<or> 0 <s graphicsClock))"









text \<open>
  A host without the NVML library whose card reports a \<open>gpu_busy_percent\<close> of 150, and
  the same card labelled with each of the other vendors.
\<close>

definition host_amd_busy :: host where
  "host_amd_busy = \<lparr> sys = fs_busy, env_is_set = (\<lambda>v. False), load_library = (\<lambda>n. None) \<rparr>"

section \<open>The delta engine: results\<close>

lemma recognized_slot: "recognized_field f \<Longrightarrow> \<exists>slot. select_slot f = Some slot"
  by (auto simp: recognized_field_def select_slot_def)

lemma firstTime_new [simp]: "firstTime slot newProcessDeltaData"
  by (cases slot) (simp_all add: newProcessDeltaData_def)

lemma firstTime_storeLast [simp]: "firstTime s (storeLastValue s' v d) = firstTime s d"
  by (cases s; cases s') simp_all

lemma firstTime_storeFirst:
  "firstTime s (storeFirstTime s' b d) = (if s = s' then b else firstTime s d)"
  by (cases s; cases s') simp_all

lemma lastValue_storeLast:
  "lastValue s (storeLastValue s' v d) = (if s = s' then v else lastValue s d)"
  by (cases s; cases s') simp_all

lemma lastValue_storeFirst [simp]: "lastValue s (storeFirstTime s' b d) = lastValue s d"
  by (cases s; cases s') simp_all

lemma select_slot_inj: "select_slot f = Some s \<Longrightarrow> select_slot g = Some s \<Longrightarrow> f = g"
  by (auto simp: select_slot_def split: if_splits)

lemma baseline_unrecognized: "\<not> recognized_field f \<Longrightarrow> baseline m pid f = None"
  by (auto simp: baseline_def select_slot_def recognized_field_def split: option.splits)

text \<open>
  One call changes the baseline of its own PID and field, when the field is a known one,
  and no other baseline.
\<close>

lemma baseline_step:
  "baseline (snd (calculateDelta m p g v)) pid f =
     (if p = pid \<and> g = f \<and> recognized_field f then Some v else baseline m pid f)"
proof (cases "select_slot g")
  case None
  then have ng: "\<not> (g = f \<and> recognized_field f)"
    using recognized_slot by fastforce
  show ?thesis using None ng
    by (cases "select_slot f")
       (auto simp: calculateDelta_def baseline_def Let_def split: option.splits)
next
  case (Some s)
  note Sg = this
  show ?thesis
  proof (cases "select_slot f")
    case None
    then have "\<not> recognized_field f" using recognized_slot by fastforce
    then show ?thesis using None by (simp add: baseline_def split: option.splits)
  next
    case (Some t)
    note Sf = this
    have eq: "s = t \<longleftrightarrow> g = f"
      using Sf Sg select_slot_inj by auto
    have rf: "recognized_field f"
      using Sf by (auto simp: select_slot_def recognized_field_def split: if_splits)
    show ?thesis using Sf Sg eq rf
      by (auto simp: calculateDelta_def baseline_def Let_def firstTime_storeFirst
            lastValue_storeLast split: option.splits)
  qed
qed

lemma baseline_replay:
  "baseline (replay m cs) pid f =
     (case previous_sample cs pid f of
        Some w \<Rightarrow> if recognized_field f then Some w else None
      | None \<Rightarrow> baseline m pid f)"
proof (induction cs arbitrary: m)
  case Nil
  show ?case by simp
next
  case (Cons c cs)
  obtain p g v where c: "c = (p, g, v)" by (cases c)
  show ?case
    by (auto simp: c Cons.IH baseline_step baseline_unrecognized split: option.splits)
qed

lemma baseline_empty [simp]: "baseline Map.empty pid f = None"
  by (simp add: baseline_def)

lemma delta_value:
  "recognized_field f \<Longrightarrow>
   fst (calculateDelta m pid f v) =
     (case baseline m pid f of None \<Rightarrow> 0 | Some l \<Rightarrow> if l \<le> v then v - l else 0)"
  using recognized_slot [of f]
  by (auto simp: calculateDelta_def baseline_def Let_def split: option.splits)

text \<open>
  Claim C2.  Start from the empty map and let any history of calls run.  A further call
  for a PID and one of the seven known fields returns 0 when the history holds no call
  for that PID and field; otherwise, with \<open>l\<close> the value of the most recent such call,
  it returns \<open>v - l\<close> when \<open>l \<le> v\<close> and 0 when \<open>v < l\<close>.  Read as a number the result
  is the truncated difference, so it is never a wrapped value.  In every case the value
  of this call is the baseline afterwards.
\<close>

theorem calculateDelta_history:
  assumes "recognized_field field"
  shows "fst (calculateDelta (replay Map.empty history) pid field v) =
           (case previous_sample history pid field of
              None \<Rightarrow> 0
            | Some l \<Rightarrow> if l \<le> v then v - l else 0)
         \<and> unat (fst (calculateDelta (replay Map.empty history) pid field v)) =
           (case previous_sample history pid field of
              None \<Rightarrow> 0
            | Some l \<Rightarrow> unat v - unat l)
         \<and> baseline (snd (calculateDelta (replay Map.empty history) pid field v)) pid field
             = Some v"
proof -
  have b: "baseline (replay Map.empty history) pid field = previous_sample history pid field"
    using assms by (simp add: baseline_replay split: option.splits)
  have d: "fst (calculateDelta (replay Map.empty history) pid field v) =
           (case previous_sample history pid field of
              None \<Rightarrow> 0 | Some l \<Rightarrow> if l \<le> v then v - l else 0)"
    using delta_value [OF assms, of "replay Map.empty history" pid v] b by simp
  have u: "unat (fst (calculateDelta (replay Map.empty history) pid field v)) =
           (case previous_sample history pid field of
              None \<Rightarrow> 0 | Some l \<Rightarrow> unat v - unat l)"
    by (auto simp: d unat_sub word_le_nat_alt split: option.splits)
  show ?thesis using d u assms by (simp add: baseline_step)
qed

theorem calculateDelta_history_witness:
  "recognized_field ''utime''
   \<and> fst (calculateDelta Map.empty 100 ''utime'' 500) = 0
   \<and> fst (calculateDelta (replay Map.empty [(100, ''utime'', 500)]) 100 ''utime'' 700) = 200
   \<and> fst (calculateDelta (replay Map.empty [(100, ''utime'', 500), (100, ''utime'', 700)])
          100 ''utime'' 300) = 0
   \<and> baseline (snd (calculateDelta
          (replay Map.empty [(100, ''utime'', 500), (100, ''utime'', 700)]) 100 ''utime'' 300))
          100 ''utime'' = Some 300"
proof -
  have r: "recognized_field ''utime''" by (simp add: recognized_field_def)
  show ?thesis
    using r calculateDelta_history [OF r, of "[]" 100 500]
      calculateDelta_history [OF r, of "[(100, ''utime'', 500)]" 100 700]
      calculateDelta_history [OF r, of "[(100, ''utime'', 500), (100, ''utime'', 700)]" 100 300]
    by simp
qed

section \<open>The AMD backend: results\<close>

lemmas text_eval =
  readFirstLine_def readLine_def trimmed_def isSpace_def readIntegerFile_def
  toLongLong_def magnitude_base0_def number_value_def digit_value_def

lemmas amd_eval =
  GpuBackendAmd_readStats_def readGpuUtilization_def readVramInfo_def
  GpuBackendAmd_readTemperature_def findHwmonDir_def findHwmonFiles_def default_QDir_def
  readClockInfo_def parseCurrentClockFromDpm_def split_skip_empty_def
  isDigit_def isSpace_re_def re_tail_def toInt_digits_def mhz_to_khz_def
  word_sle_eq word_sless_alt

lemmas reader_eval =
  readStatsAmd_def GpuReader_readIntegerFile_def GpuReader_readFirstLine_def
  QFile_readLine_def readHwmonTempC_def readAmdClockInfo_def re_tail_ci_def
  trimmed_def isSpace_def toLongLong_def magnitude_base0_def number_value_def
  digit_value_def split_skip_empty_def isDigit_def isSpace_re_def toInt_digits_def
  word_sle_eq word_sless_alt Let_def

text \<open>
  Claim C1.  On the table of the specification the parser does find the marked level:
  \<open>parseCurrentClockFromDpm\<close> gives 600.  But \<open>readClockInfo\<close> hands it what
  \<open>readFirstLine\<close> returns, the first line of the file, \<open>0: 300Mhz\<close>, which carries no
  marker.  So on a device whose \<open>pp_dpm_mclk\<close> and \<open>pp_dpm_sclk\<close> hold this table no
  clock is read at all: \<open>readClockInfo\<close> returns \<open>false\<close> with both clocks at \<open>-1\<close>,
  and \<open>readStats\<close> returns \<open>false\<close> and leaves \<open>memoryClockkHz\<close> and \<open>coreClockkHz\<close>
  at \<open>-1\<close>, not at 600000.  \<open>GpuReader::readAmdClockInfo\<close> reads the files the same
  way and finds no clock either.
\<close>

theorem dpm_first_line_only:
  "parseCurrentClockFromDpm dpm_table = 600
   \<and> readFirstLine fs_dpm (devicePath amd_card0 @ ''/pp_dpm_mclk'') = Some ''0: 300Mhz''
   \<and> readClockInfo fs_dpm (devicePath amd_card0) (- 1) (- 1) = (False, - 1, - 1)
   \<and> GpuBackendAmd_readStats fs_dpm amd_card0 new_GpuStats = (False, new_GpuStats)
   \<and> readAmdClockInfo fs_dpm (devicePath amd_card0) = (False, - 1, - 1)"
proof -
  have a: "parseCurrentClockFromDpm dpm_table = 600"
    by (simp add: dpm_table_def amd_eval number_value_def digit_value_def)
  have b: "readFirstLine fs_dpm (devicePath amd_card0 @ ''/pp_dpm_mclk'') = Some ''0: 300Mhz''"
    by (simp add: fs_dpm_def files_only_def amd_card0_def dpm_table_def text_eval)
  have c: "readClockInfo fs_dpm (devicePath amd_card0) (- 1) (- 1) = (False, - 1, - 1)"
    by (simp add: fs_dpm_def files_only_def amd_card0_def dpm_table_def text_eval amd_eval)
  have d: "GpuBackendAmd_readStats fs_dpm amd_card0 new_GpuStats = (False, new_GpuStats)"
    by (simp add: fs_dpm_def files_only_def amd_card0_def dpm_table_def text_eval amd_eval)
  have e: "readAmdClockInfo fs_dpm (devicePath amd_card0) = (False, - 1, - 1)"
    by (simp add: fs_dpm_def files_only_def amd_card0_def dpm_table_def reader_eval)
  show ?thesis using a b c d e by blast
qed

text \<open>
  Claim C6.  The AMD backend stores what the two VRAM files hold and compares nothing:
  on a device whose \<open>mem_info_vram_used\<close> reads 200 and whose \<open>mem_info_vram_total\<close>
  reads 100 the read succeeds with \<open>memoryUsedBytes = 200\<close> above
  \<open>memoryTotalBytes = 100\<close>.  So does \<open>GpuReader::readStatsAmd\<close>, the reader the
  unit test calls.
\<close>

theorem vram_used_above_total:
  "GpuBackendAmd_readStats fs_vram amd_card0 new_GpuStats =
     (True, new_GpuStats\<lparr>memoryUsedBytes := 200, memoryTotalBytes := 100\<rparr>)
   \<and> readStatsAmd fs_vram (devicePath amd_card0) new_GpuStats =
     (True, new_GpuStats\<lparr>memoryUsedBytes := 200, memoryTotalBytes := 100\<rparr>)
   \<and> (0 :: quint64) < 100 \<and> \<not> (200 :: quint64) \<le> 100"
proof -
  have a: "GpuBackendAmd_readStats fs_vram amd_card0 new_GpuStats =
     (True, new_GpuStats\<lparr>memoryUsedBytes := 200, memoryTotalBytes := 100\<rparr>)"
    by (simp add: fs_vram_def files_only_def amd_card0_def text_eval amd_eval)
  have b: "readStatsAmd fs_vram (devicePath amd_card0) new_GpuStats =
     (True, new_GpuStats\<lparr>memoryUsedBytes := 200, memoryTotalBytes := 100\<rparr>)"
    by (simp add: fs_vram_def files_only_def amd_card0_def new_GpuStats_def reader_eval)
  show ?thesis using a b by simp
qed

text \<open>
  Claim C7.  \<open>readGpuUtilization\<close> accepts every value that is not negative: on a device
  whose \<open>gpu_busy_percent\<close> reads 150 the read succeeds with \<open>utilizationPercent = 150\<close>.
  So does \<open>GpuReader::readStatsAmd\<close>, the reader the unit test calls.
\<close>

theorem busy_percent_150:
  "GpuBackendAmd_readStats fs_busy amd_card0 new_GpuStats =
     (True, new_GpuStats\<lparr>utilizationPercent := 150\<rparr>)
   \<and> readStatsAmd fs_busy (devicePath amd_card0) new_GpuStats =
     (True, new_GpuStats\<lparr>utilizationPercent := 150\<rparr>)
   \<and> sint (150 :: cint) = 150"
proof -
  have a: "GpuBackendAmd_readStats fs_busy amd_card0 new_GpuStats =
     (True, new_GpuStats\<lparr>utilizationPercent := 150\<rparr>)"
    by (simp add: fs_busy_def files_only_def amd_card0_def text_eval amd_eval)
  have b: "readStatsAmd fs_busy (devicePath amd_card0) new_GpuStats =
     (True, new_GpuStats\<lparr>utilizationPercent := 150\<rparr>)"
    by (simp add: fs_busy_def files_only_def amd_card0_def new_GpuStats_def reader_eval)
  show ?thesis using a b by simp
qed

lemma readVramInfo_eq:
  "readVramInfo fs path 0 0 =
     (vram_files fs path \<noteq> None,
      (case readIntegerFile fs (path @ ''/mem_info_vram_used'') of Some u \<Rightarrow> u | None \<Rightarrow> 0),
      (case readIntegerFile fs (path @ ''/mem_info_vram_total'') of Some t \<Rightarrow> t | None \<Rightarrow> 0))"
  by (simp add: readVramInfo_def vram_files_def split: option.splits)

text \<open>
  Claim C10.  \<open>GpuBackendAmd::readStats\<close> writes the two memory members only when both
  VRAM files are present and parse as integers, and then with the values of the files.
  When either is missing or does not parse, both members keep the values the caller
  passed in, and the flag returned is the one the utilization, temperature and clock
  reads give.
\<close>

theorem readStats_vram_all_or_nothing:
  "memoryUsedBytes (snd (GpuBackendAmd_readStats fs device out)) =
     (case vram_files fs (devicePath device) of
        Some (vramUsed, vramTotal) \<Rightarrow> vramUsed
      | None \<Rightarrow> memoryUsedBytes out)
   \<and> memoryTotalBytes (snd (GpuBackendAmd_readStats fs device out)) =
     (case vram_files fs (devicePath device) of
        Some (vramUsed, vramTotal) \<Rightarrow> vramTotal
      | None \<Rightarrow> memoryTotalBytes out)
   \<and> fst (GpuBackendAmd_readStats fs device out) =
     (case vram_files fs (devicePath device) of
        Some (vramUsed, vramTotal) \<Rightarrow> True
      | None \<Rightarrow> other_reads_have_data fs (devicePath device))"
  by (auto simp: GpuBackendAmd_readStats_def readVramInfo_eq other_reads_have_data_def
        vram_files_def Let_def split: prod.splits option.splits)

theorem readStats_vram_all_or_nothing_witness:
  "vram_files fs_vram_used_only (devicePath amd_card0) = None
   \<and> \<not> other_reads_have_data fs_vram_used_only (devicePath amd_card0)
   \<and> memoryUsedBytes (snd (GpuBackendAmd_readStats fs_vram_used_only amd_card0 new_GpuStats)) = 0
   \<and> memoryTotalBytes (snd (GpuBackendAmd_readStats fs_vram_used_only amd_card0 new_GpuStats)) = 0
   \<and> \<not> fst (GpuBackendAmd_readStats fs_vram_used_only amd_card0 new_GpuStats)
   \<and> vram_files fs_vram (devicePath amd_card0) = Some (200, 100)
   \<and> memoryUsedBytes (snd (GpuBackendAmd_readStats fs_vram amd_card0 new_GpuStats)) = 200
   \<and> memoryTotalBytes (snd (GpuBackendAmd_readStats fs_vram amd_card0 new_GpuStats)) = 100
   \<and> fst (GpuBackendAmd_readStats fs_vram amd_card0 new_GpuStats)"
proof -
  have a: "vram_files fs_vram_used_only (devicePath amd_card0) = None"
    by (simp add: vram_files_def fs_vram_used_only_def files_only_def amd_card0_def text_eval)
  have b: "\<not> other_reads_have_data fs_vram_used_only (devicePath amd_card0)"
    by (simp add: other_reads_have_data_def fs_vram_used_only_def files_only_def amd_card0_def
        text_eval amd_eval)
  have c: "vram_files fs_vram (devicePath amd_card0) = Some (200, 100)"
    by (simp add: vram_files_def fs_vram_def files_only_def amd_card0_def text_eval)
  show ?thesis
    using a b c
      readStats_vram_all_or_nothing [of fs_vram_used_only amd_card0 new_GpuStats]
      readStats_vram_all_or_nothing [of fs_vram amd_card0 new_GpuStats]
    by (simp add: new_GpuStats_def)
qed

section \<open>The Intel backend: results\<close>





















section \<open>The service: results\<close>

text \<open>
  Claim C4.  The backends are registered in the order NVIDIA, AMD, Intel.
  \<open>readStatsFor\<close> returns what the first backend of that list that supports the device
  returns, flag, statistics and state, and nothing else is run: a read that fails is
  returned as it is.  When no backend supports the device the call fails and leaves the
  statistics and the service as they were.
\<close>

theorem readStatsFor_dispatch:
  "m_backends = [NvidiaBackend, AmdBackend, IntelBackend]
   \<and> readStatsFor h svc device out =
       (case find (\<lambda>b. supports svc b device) m_backends of
          None \<Rightarrow> Inr (False, out, svc)
        | Some b \<Rightarrow> readStats h svc b device out)"
proof -
  have "readStatsFor_loop h svc bs device out =
          (case find (\<lambda>b. supports svc b device) bs of
             None \<Rightarrow> Inr (False, out, svc)
           | Some b \<Rightarrow> readStats h svc b device out)" for bs
    by (induction bs) simp_all
  then show ?thesis by (simp add: readStatsFor_def m_backends_def)
qed

lemma nvml_unavailable:
  "\<not> initialized (nvidia_d_ptr (new_GpuService host_amd_busy))"
  by (simp add: new_GpuService_def GpuBackendNvidia_new_def initializeNvml_def
      new_NvidiaBackendPrivate_def host_amd_busy_def Let_def split: prod.splits)

lemma find_backend_amd_busy:
  "find (\<lambda>b. supports (new_GpuService host_amd_busy) b device) m_backends =
     (case vendor device of
        AMD \<Rightarrow> Some AmdBackend
      | Intel \<Rightarrow> Some IntelBackend
      | _ \<Rightarrow> None)"
  using nvml_unavailable
  by (cases "vendor device")
     (simp_all add: m_backends_def GpuBackendNvidia_supports_def isNvmlAvailable_def
        GpuBackendAmd_supports_def GpuBackendIntel_supports_def)

lemma amd_busy_read:
  "GpuBackendAmd_readStats (sys host_amd_busy) amd_card0 new_GpuStats =
     (True, new_GpuStats\<lparr>utilizationPercent := 150\<rparr>)"
  by (simp add: host_amd_busy_def fs_busy_def files_only_def amd_card0_def text_eval amd_eval)

theorem readStatsFor_dispatch_witness:
  "readStatsFor host_amd_busy (new_GpuService host_amd_busy) amd_card0 new_GpuStats =
     Inr (True, new_GpuStats\<lparr>utilizationPercent := 150\<rparr>, new_GpuService host_amd_busy)
   \<and> readStatsFor host_amd_busy (new_GpuService host_amd_busy)
        (amd_card0\<lparr>vendor := Nvidia\<rparr>) new_GpuStats =
     Inr (False, new_GpuStats, new_GpuService host_amd_busy)
   \<and> readStatsFor host_amd_busy (new_GpuService host_amd_busy)
        (amd_card0\<lparr>vendor := Unknown\<rparr>) new_GpuStats =
     Inr (False, new_GpuStats, new_GpuService host_amd_busy)"
proof -
  have v: "vendor amd_card0 = AMD" by (simp add: amd_card0_def)
  have a: "readStatsFor host_amd_busy (new_GpuService host_amd_busy) amd_card0 new_GpuStats =
     Inr (True, new_GpuStats\<lparr>utilizationPercent := 150\<rparr>, new_GpuService host_amd_busy)"
    using readStatsFor_dispatch [of host_amd_busy "new_GpuService host_amd_busy" amd_card0
        new_GpuStats]
    by (simp only: find_backend_amd_busy v GpuVendor.case option.case readStats.simps
        amd_busy_read prod.case)
  have n: "readStatsFor host_amd_busy (new_GpuService host_amd_busy)
        (amd_card0\<lparr>vendor := Nvidia\<rparr>) new_GpuStats =
     Inr (False, new_GpuStats, new_GpuService host_amd_busy)"
    using readStatsFor_dispatch [of host_amd_busy "new_GpuService host_amd_busy"
        "amd_card0\<lparr>vendor := Nvidia\<rparr>" new_GpuStats]
    by (simp add: find_backend_amd_busy)
  have u: "readStatsFor host_amd_busy (new_GpuService host_amd_busy)
        (amd_card0\<lparr>vendor := Unknown\<rparr>) new_GpuStats =
     Inr (False, new_GpuStats, new_GpuService host_amd_busy)"
    using readStatsFor_dispatch [of host_amd_busy "new_GpuService host_amd_busy"
        "amd_card0\<lparr>vendor := Unknown\<rparr>" new_GpuStats]
    by (simp add: find_backend_amd_busy)
  show ?thesis using a n u by blast
qed

lemma initializeNvml_disabled:
  "env_is_set h ''DSM_DISABLE_NVML'' \<Longrightarrow> GpuBackendNvidia_new h = new_NvidiaBackendPrivate"
  by (simp add: GpuBackendNvidia_new_def initializeNvml_def new_NvidiaBackendPrivate_def)

text \<open>
  Claim C9.  With \<open>DSM_DISABLE_NVML\<close> in the environment \<open>initializeNvml\<close> returns
  \<open>false\<close> before it looks for the library: the backend has asked nothing of the host
  (no file probed, no library loaded, no symbol resolved, \<open>nvmlInit\<close> not called) and is
  not initialized.  \<open>supports\<close> is then false for every device, whatever its vendor, the
  stats read of the backend and \<open>GpuReader::readStatsNvidia\<close> return \<open>false\<close> and leave
  the statistics untouched, and so does the service for an NVIDIA device.
\<close>

theorem nvml_disabled:
  assumes "env_is_set h ''DSM_DISABLE_NVML''"
  shows "initializeNvml h new_NvidiaBackendPrivate = (False, new_NvidiaBackendPrivate)
    \<and> actions (GpuBackendNvidia_new h) = []
    \<and> \<not> nvmlLib_isLoaded (GpuBackendNvidia_new h)
    \<and> \<not> isNvmlAvailable (GpuBackendNvidia_new h)
    \<and> \<not> GpuBackendNvidia_supports (GpuBackendNvidia_new h) device
    \<and> GpuBackendNvidia_readStats (GpuBackendNvidia_new h) device out = Inr (False, out)
    \<and> readStatsNvidia h device out = (False, out)
    \<and> readStatsFor h (new_GpuService h) (device\<lparr>vendor := Nvidia\<rparr>) out
        = Inr (False, out, new_GpuService h)"
  using assms
  by (simp add: initializeNvml_disabled initializeNvml_def new_NvidiaBackendPrivate_def
      isNvmlAvailable_def GpuBackendNvidia_supports_def GpuBackendNvidia_readStats_def
      readStatsNvidia_def readStatsFor_def m_backends_def new_GpuService_def
      GpuBackendAmd_supports_def GpuBackendIntel_supports_def)

lemmas nvml_eval =
  GpuBackendNvidia_new_def initializeNvml_def new_NvidiaBackendPrivate_def null_pointers_def
  getNvmlLibraryCandidates_def resolveFunctions_def NVML_SUCCESS_def isNvmlAvailable_def
  GpuBackendNvidia_supports_def working_nvml_def nvidia_sysfs_def drm_with_def
  nvidia_card0_def Let_def

text \<open>
  The same host with and without the variable: without it the library is found, loaded
  and initialized and the backend supports the card; with it nothing is done.
\<close>

theorem nvml_disabled_witness:
  "env_is_set host_nvml_disabled ''DSM_DISABLE_NVML''
   \<and> vendor nvidia_card0 = Nvidia
   \<and> GpuBackendNvidia_supports (GpuBackendNvidia_new host_nvml_enabled) nvidia_card0
   \<and> actions (GpuBackendNvidia_new host_nvml_enabled) =
       [ProbeFile ''/usr/lib/x86_64-linux-gnu/libnvidia-ml.so.1'',
        LoadLibrary ''/usr/lib/x86_64-linux-gnu/libnvidia-ml.so.1'', ResolveSymbols, CallInit]
   \<and> actions (GpuBackendNvidia_new host_nvml_disabled) = []
   \<and> \<not> GpuBackendNvidia_supports (GpuBackendNvidia_new host_nvml_disabled) nvidia_card0
   \<and> GpuBackendNvidia_readStats (GpuBackendNvidia_new host_nvml_disabled) nvidia_card0
        new_GpuStats = Inr (False, new_GpuStats)
   \<and> readStatsNvidia host_nvml_disabled nvidia_card0 new_GpuStats = (False, new_GpuStats)"
proof -
  have e: "env_is_set host_nvml_disabled ''DSM_DISABLE_NVML''"
    by (simp add: host_nvml_disabled_def)
  have s: "GpuBackendNvidia_supports (GpuBackendNvidia_new host_nvml_enabled) nvidia_card0"
    by (simp add: host_nvml_enabled_def nvml_eval)
  have a: "actions (GpuBackendNvidia_new host_nvml_enabled) =
       [ProbeFile ''/usr/lib/x86_64-linux-gnu/libnvidia-ml.so.1'',
        LoadLibrary ''/usr/lib/x86_64-linux-gnu/libnvidia-ml.so.1'', ResolveSymbols, CallInit]"
    by (simp add: host_nvml_enabled_def nvml_eval)
  have v: "vendor nvidia_card0 = Nvidia" by (simp add: nvidia_card0_def)
  show ?thesis
    using e s a v nvml_disabled [OF e, of nvidia_card0 new_GpuStats] by simp
qed

section \<open>Enumeration: results\<close>

lemma re_digits_end_shape:
  "re_digits_end r \<Longrightarrow>
     (r \<noteq> [] \<and> list_all isDigit r)
     \<or> (\<exists>ds. ds \<noteq> [] \<and> list_all isDigit ds \<and> r = ds @ [CHR 0x0A])"
proof (induction r)
  case Nil
  then show ?case by simp
next
  case (Cons c cs)
  then have c: "isDigit c" and rest: "re_digits_end cs \<or> re_end cs" by simp_all
  from rest show ?case
  proof
    assume "re_digits_end cs"
    from Cons.IH [OF this] show ?thesis
    proof
      assume "cs \<noteq> [] \<and> list_all isDigit cs"
      then show ?thesis using c by simp
    next
      assume "\<exists>ds. ds \<noteq> [] \<and> list_all isDigit ds \<and> cs = ds @ [CHR 0x0A]"
      then obtain ds where "ds \<noteq> []" "list_all isDigit ds" "cs = ds @ [CHR 0x0A]" by blast
      then have "c # ds \<noteq> [] \<and> list_all isDigit (c # ds) \<and> c # cs = (c # ds) @ [CHR 0x0A]"
        using c by simp
      then show ?thesis by blast
    qed
  next
    assume "re_end cs"
    then consider "cs = []" | "cs = [CHR 0x0A]" by (auto simp: re_end_def)
    then show ?thesis
    proof cases
      case 1
      then show ?thesis using c by simp
    next
      case 2
      then have "[c] \<noteq> [] \<and> list_all isDigit [c] \<and> c # cs = [c] @ [CHR 0x0A]"
        using c by simp
      then show ?thesis by blast
    qed
  qed
qed

lemma onlyCardDigits_shape:
  assumes "onlyCardDigits entry"
  shows "card_digits entry \<or> (\<exists>e. card_digits e \<and> entry = e @ [CHR 0x0A])"
proof -
  from assms have p: "take 4 entry = ''card''" and r: "re_digits_end (drop 4 entry)"
    by (simp_all add: onlyCardDigits_def startsWith_def eval_nat_numeral)
  have split: "entry = ''card'' @ drop 4 entry"
    using p append_take_drop_id [of 4 entry] by simp
  from re_digits_end_shape [OF r] show ?thesis
  proof
    assume "drop 4 entry \<noteq> [] \<and> list_all isDigit (drop 4 entry)"
    then show ?thesis using p by (simp add: card_digits_def)
  next
    assume "\<exists>ds. ds \<noteq> [] \<and> list_all isDigit ds \<and> drop 4 entry = ds @ [CHR 0x0A]"
    then obtain ds where ds: "ds \<noteq> []" "list_all isDigit ds" "drop 4 entry = ds @ [CHR 0x0A]"
      by blast
    have "card_digits (''card'' @ ds)" using ds by (simp add: card_digits_def)
    moreover have "entry = (''card'' @ ds) @ [CHR 0x0A]" using split ds by simp
    ultimately show ?thesis by blast
  qed
qed

lemma detectVendor_known:
  "detectVendor fs path \<noteq> Unknown \<Longrightarrow>
     \<exists>v \<in> set known_vendor_ids. vendor_id fs path = Some v"
  by (auto simp: detectVendor_def vendor_id_def known_vendor_ids_def Let_def
        split: option.splits if_splits)

lemma enumerate_cards_member:
  "d \<in> set (enumerate_cards fs entries) \<Longrightarrow>
     \<exists>entry \<in> set entries.
        onlyCardDigits entry
        \<and> path_exists fs (absoluteFilePath drmDir entry @ ''/device'')
        \<and> detectVendor fs (absoluteFilePath drmDir entry @ ''/device'') \<noteq> Unknown
        \<and> cardPath d = absoluteFilePath drmDir entry
        \<and> devicePath d = absoluteFilePath drmDir entry @ ''/device''
        \<and> vendor d = detectVendor fs (absoluteFilePath drmDir entry @ ''/device'')"
proof (induction entries)
  case Nil
  then show ?case by simp
next
  case (Cons e es)
  show ?case
  proof (cases "d \<in> set (enumerate_cards fs es)")
    case True
    from Cons.IH [OF True] show ?thesis by auto
  next
    case False
    with Cons.prems show ?thesis
      by (auto split: if_splits)
  qed
qed

lemmas enum_eval =
  enumerate_def drm_with_def drmDir_def onlyCardDigits_def startsWith_def re_end_def
  isDigit_def absoluteFilePath_def detectVendor_def GpuReader_readFirstLine_def
  QFile_readLine_def trimmed_def isSpace_def toLower_def toLower_char_def
  detectPciBusId_def detectName_def Let_def

text \<open>
  Claim C5.  Every device \<open>enumerate\<close> returns has a vendor other than \<open>Unknown\<close>.
  The names the kernel gives the entries of \<open>/sys/class/drm\<close> hold no line feed; on
  such a listing every device returned comes from an entry whose name is exactly
  \<open>card<digits>\<close>, whose \<open>device\<close> path exists, and whose \<open>device/vendor\<close> file holds,
  trimmed and in lower case, one of \<open>0x10de\<close>, \<open>0x1002\<close>, \<open>0x1022\<close>, \<open>0x8086\<close>.
  So an entry with another name, without a \<open>device\<close> path, or with another vendor id
  never appears in the result.
\<close>

theorem enumerate_filter:
  assumes "d \<in> set (enumerate fs)"
  shows "vendor d \<noteq> Unknown
    \<and> ((\<forall>entry \<in> set (list_dirs_named fs drmDir ''card*''). CHR 0x0A \<notin> set entry) \<longrightarrow>
        (\<exists>entry \<in> set (list_dirs_named fs drmDir ''card*'').
           card_digits entry
           \<and> cardPath d = absoluteFilePath drmDir entry
           \<and> devicePath d = cardPath d @ ''/device''
           \<and> path_exists fs (devicePath d)
           \<and> (\<exists>v \<in> set known_vendor_ids. vendor_id fs (devicePath d) = Some v)))"
proof -
  from assms obtain entry where e: "entry \<in> set (list_dirs_named fs drmDir ''card*'')"
    and o: "onlyCardDigits entry"
    and p: "path_exists fs (absoluteFilePath drmDir entry @ ''/device'')"
    and v: "detectVendor fs (absoluteFilePath drmDir entry @ ''/device'') \<noteq> Unknown"
    and c: "cardPath d = absoluteFilePath drmDir entry"
    and dp: "devicePath d = absoluteFilePath drmDir entry @ ''/device''"
    and vd: "vendor d = detectVendor fs (absoluteFilePath drmDir entry @ ''/device'')"
    using enumerate_cards_member [of d fs] by (auto simp: enumerate_def)
  have k: "\<exists>v \<in> set known_vendor_ids. vendor_id fs (devicePath d) = Some v"
    using detectVendor_known [OF v] dp by simp
  have n: "card_digits entry" if "CHR 0x0A \<notin> set entry"
    using onlyCardDigits_shape [OF o] that by auto
  have u: "vendor d \<noteq> Unknown" using v vd by simp
  show ?thesis
  proof (intro conjI impI)
    show "vendor d \<noteq> Unknown" by (rule u)
  next
    assume "\<forall>entry \<in> set (list_dirs_named fs drmDir ''card*''). CHR 0x0A \<notin> set entry"
    then have "card_digits entry" using e n by blast
    then show "\<exists>entry \<in> set (list_dirs_named fs drmDir ''card*'').
           card_digits entry
           \<and> cardPath d = absoluteFilePath drmDir entry
           \<and> devicePath d = cardPath d @ ''/device''
           \<and> path_exists fs (devicePath d)
           \<and> (\<exists>v \<in> set known_vendor_ids. vendor_id fs (devicePath d) = Some v)"
      using e p c dp k by auto
  qed
qed

lemma enumerate_mixed_cards:
  "enumerate fs_mixed_cards =
     [\<lparr> cardPath = ''/sys/class/drm/card0'', devicePath = ''/sys/class/drm/card0/device'',
        pciBusId = [], name = ''AMD GPU'', vendor = AMD \<rparr>]"
  by (simp add: fs_mixed_cards_def enum_eval)

text \<open>
  Of the three entries only \<open>card0\<close> gives a device: \<open>card0-HDMI-A-1\<close> is a connector,
  and the vendor id of \<open>card1\<close> is not a known one.
\<close>

theorem enumerate_filter_witness:
  "list_dirs_named fs_mixed_cards drmDir ''card*'' = [''card0'', ''card0-HDMI-A-1'', ''card1'']
   \<and> CHR 0x0A \<notin> set (concat (list_dirs_named fs_mixed_cards drmDir ''card*''))
   \<and> map cardPath (enumerate fs_mixed_cards) = [''/sys/class/drm/card0'']
   \<and> map vendor (enumerate fs_mixed_cards) = [AMD]
   \<and> card_digits ''card0'' \<and> \<not> card_digits ''card0-HDMI-A-1''
   \<and> path_exists fs_mixed_cards ''/sys/class/drm/card0/device''
   \<and> vendor_id fs_mixed_cards ''/sys/class/drm/card0/device'' = Some ''0x1002''
   \<and> vendor_id fs_mixed_cards ''/sys/class/drm/card1/device'' = Some ''0x1af4''"
proof -
  have m: "\<lparr> cardPath = ''/sys/class/drm/card0'', devicePath = ''/sys/class/drm/card0/device'',
      pciBusId = [], name = ''AMD GPU'', vendor = AMD \<rparr> \<in> set (enumerate fs_mixed_cards)"
    by (simp add: enumerate_mixed_cards)
  have l: "list_dirs_named fs_mixed_cards drmDir ''card*'' =
             [''card0'', ''card0-HDMI-A-1'', ''card1'']"
    by (simp add: fs_mixed_cards_def drm_with_def)
  have f: "\<forall>entry \<in> set (list_dirs_named fs_mixed_cards drmDir ''card*''). CHR 0x0A \<notin> set entry"
    by (simp add: l)
  have v: "vendor_id fs_mixed_cards ''/sys/class/drm/card0/device'' = Some ''0x1002''"
    by (simp add: vendor_id_def fs_mixed_cards_def enum_eval)
  have w: "vendor_id fs_mixed_cards ''/sys/class/drm/card1/device'' = Some ''0x1af4''"
    by (simp add: vendor_id_def fs_mixed_cards_def enum_eval)
  have c: "card_digits ''card0'' \<and> \<not> card_digits ''card0-HDMI-A-1''"
    by (simp add: card_digits_def isDigit_def)
  have p: "path_exists fs_mixed_cards ''/sys/class/drm/card0/device''"
    by (simp add: fs_mixed_cards_def drm_with_def drmDir_def)
  have g: "CHR 0x0A \<notin> set (concat (list_dirs_named fs_mixed_cards drmDir ''card*''))"
    by (simp add: l)
  show ?thesis
    using l f g v w c p enumerate_filter [OF m]
    by (simp add: enumerate_mixed_cards)
qed

lemma enumerate_amd_card:
  "enumerate (sys host_amd_card) =
     [\<lparr> cardPath = ''/sys/class/drm/card0'', devicePath = ''/sys/class/drm/card0/device'',
        pciBusId = [], name = ''AMD GPU'', vendor = AMD \<rparr>]"
  by (simp add: host_amd_card_def enum_eval)

lemma enumerate_no_card: "enumerate (sys host_no_card) = []"
  by (simp add: host_no_card_def enum_eval)

section \<open>The device list of the service: results\<close>

text \<open>
  Claim C8, as stated, fails when the first enumeration finds nothing: the empty list is
  also what \<open>devices\<close> takes for "not enumerated yet".  On a host without a card the first
  call returns the empty list; once an AMD card has appeared, the second call on the same
  service enumerates again and returns it.
\<close>

theorem devices_reenumerates_after_empty:
  "fst (devices host_no_card (new_GpuService host_no_card)) = []
   \<and> map cardPath (fst (devices host_amd_card
        (snd (devices host_no_card (new_GpuService host_no_card))))) = [''/sys/class/drm/card0'']
   \<and> fst (devices host_amd_card (snd (devices host_no_card (new_GpuService host_no_card))))
       \<noteq> fst (devices host_no_card (new_GpuService host_no_card))"
  by (simp add: devices_def new_GpuService_def enumerate_no_card enumerate_amd_card)

text \<open>
  Claim C8, amended.  After a call of \<open>devices\<close> that returned a list that is not empty,
  every later call returns that same list and leaves the service as it is, whatever the
  file system holds by then: nothing is enumerated again.  While the list is empty, each
  call enumerates again and returns what it finds.
\<close>

theorem devices_cached_when_nonempty:
  "(fst (devices h svc) \<noteq> [] \<longrightarrow> devices h' (snd (devices h svc)) = devices h svc)
   \<and> (fst (devices h svc) = [] \<longrightarrow>
        fst (devices h' (snd (devices h svc))) = enumerate (sys h'))"
  by (auto simp: devices_def Let_def)

theorem devices_cached_when_nonempty_witness:
  "fst (devices host_amd_card (new_GpuService host_amd_card)) \<noteq> []
   \<and> enumerate (sys host_no_card) = []
   \<and> devices host_no_card (snd (devices host_amd_card (new_GpuService host_amd_card)))
       = devices host_amd_card (new_GpuService host_amd_card)
   \<and> fst (devices host_no_card (new_GpuService host_no_card)) = []
   \<and> fst (devices host_amd_card (snd (devices host_no_card (new_GpuService host_no_card))))
       = enumerate (sys host_amd_card)"
proof -
  have a: "fst (devices host_amd_card (new_GpuService host_amd_card)) \<noteq> []"
    by (simp add: devices_def new_GpuService_def enumerate_amd_card)
  have b: "fst (devices host_no_card (new_GpuService host_no_card)) = []"
    by (simp add: devices_def new_GpuService_def enumerate_no_card)
  show ?thesis
    using a b enumerate_no_card
      devices_cached_when_nonempty [of host_amd_card "new_GpuService host_amd_card" host_no_card]
      devices_cached_when_nonempty [of host_no_card "new_GpuService host_no_card" host_amd_card]
    by simp
qed

end
